theory Spec2Isabelle
  imports Complex_Main "HOL-Library.Sublist"
begin

section \<open>Python strings\<close>

text \<open>
  A Python \<open>str\<close> is modelled as a \<open>string\<close>: a list of characters, each one a code point
  below 256. The string methods the manager calls are written out on that range.
\<close>

text \<open>\<open>str.isspace\<close> on one character: the code points 9-13, 28-32, 0x85 and 0xA0.\<close>

definition py_isspace :: "char \<Rightarrow> bool" where
  "py_isspace c = (c \<in> set [CHR 0x09, CHR 0x0A, CHR 0x0B, CHR 0x0C, CHR 0x0D,
                               CHR 0x1C, CHR 0x1D, CHR 0x1E, CHR 0x1F, CHR 0x20,
                               CHR 0x85, CHR 0xA0])"

text \<open>
  \<open>str.lower\<close>: the letters A-Z and the capital letters 0xC0-0xDE (0xD7 apart) are
  replaced by their lowercase forms, 32 code points up; every other character is kept.
\<close>

definition upper_chars :: "char list" where
  "upper_chars = ''ABCDEFGHIJKLMNOPQRSTUVWXYZ'' @
       [CHR 0xC0, CHR 0xC1, CHR 0xC2, CHR 0xC3, CHR 0xC4, CHR 0xC5, CHR 0xC6, CHR 0xC7,
        CHR 0xC8, CHR 0xC9, CHR 0xCA, CHR 0xCB, CHR 0xCC, CHR 0xCD, CHR 0xCE, CHR 0xCF,
        CHR 0xD0, CHR 0xD1, CHR 0xD2, CHR 0xD3, CHR 0xD4, CHR 0xD5, CHR 0xD6, CHR 0xD8,
        CHR 0xD9, CHR 0xDA, CHR 0xDB, CHR 0xDC, CHR 0xDD, CHR 0xDE]"

definition lower_chars :: "char list" where
  "lower_chars = ''abcdefghijklmnopqrstuvwxyz'' @
       [CHR 0xE0, CHR 0xE1, CHR 0xE2, CHR 0xE3, CHR 0xE4, CHR 0xE5, CHR 0xE6, CHR 0xE7,
        CHR 0xE8, CHR 0xE9, CHR 0xEA, CHR 0xEB, CHR 0xEC, CHR 0xED, CHR 0xEE, CHR 0xEF,
        CHR 0xF0, CHR 0xF1, CHR 0xF2, CHR 0xF3, CHR 0xF4, CHR 0xF5, CHR 0xF6, CHR 0xF8,
        CHR 0xF9, CHR 0xFA, CHR 0xFB, CHR 0xFC, CHR 0xFD, CHR 0xFE]"

definition py_lower_char :: "char \<Rightarrow> char" where
  "py_lower_char c = (case map_of (zip upper_chars lower_chars) c of None \<Rightarrow> c | Some l \<Rightarrow> l)"

definition py_lower :: "string \<Rightarrow> string" where
  "py_lower s = map py_lower_char s"

text \<open>\<open>str.strip()\<close> and \<open>str.rstrip('/')\<close>.\<close>

definition py_strip :: "string \<Rightarrow> string" where
  "py_strip s = rev (dropWhile py_isspace (rev (dropWhile py_isspace s)))"

definition py_rstrip_slash :: "string \<Rightarrow> string" where
  "py_rstrip_slash s = rev (dropWhile (\<lambda>c. c = CHR ''/'') (rev s))"

text \<open>\<open>str.split()\<close> with no argument: the maximal runs of non-whitespace characters.\<close>

fun py_split_aux :: "string \<Rightarrow> string \<Rightarrow> string list" where
  "py_split_aux cur [] = (if cur = [] then [] else [cur])"
| "py_split_aux cur (c # cs) =
     (if py_isspace c
      then (if cur = [] then py_split_aux [] cs else cur # py_split_aux [] cs)
      else py_split_aux (cur @ [c]) cs)"

definition py_split :: "string \<Rightarrow> string list" where
  "py_split s = py_split_aux [] s"

text \<open>\<open>sub in s\<close> on strings, and \<open>s.startswith('--')\<close>.\<close>

fun py_contains :: "string \<Rightarrow> string \<Rightarrow> bool" where
  "py_contains sub [] = (sub = [])"
| "py_contains sub (c # cs) = (prefix sub (c # cs) \<or> py_contains sub cs)"

definition is_flag :: "string \<Rightarrow> bool" where
  "is_flag s = prefix ''--'' s"

text \<open>
  \<open>s.replace(old, new)\<close>: the occurrences of \<open>old\<close> are replaced from the left, without
  overlap; an empty \<open>old\<close> matches before every character and at the end.
\<close>

function replace_nonempty :: "string \<Rightarrow> string \<Rightarrow> string \<Rightarrow> string" where
  "replace_nonempty old new s =
     (if s = [] \<or> old = [] then s
      else if prefix old s then new @ replace_nonempty old new (drop (length old) s)
      else hd s # replace_nonempty old new (tl s))"
  by pat_completeness auto
termination
  by (relation "measure (\<lambda>(old, new, s). length s)") auto

declare replace_nonempty.simps [simp del]

definition py_replace :: "string \<Rightarrow> string \<Rightarrow> string \<Rightarrow> string" where
  "py_replace s old new =
     (if old = [] then new @ concat (map (\<lambda>c. c # new) s) else replace_nonempty old new s)"

text \<open>\<open>' '.join(xs)\<close> and \<open>str(n)\<close> for an integer.\<close>

fun py_join :: "string \<Rightarrow> string list \<Rightarrow> string" where
  "py_join sep [] = []"
| "py_join sep [x] = x"
| "py_join sep (x # y # ys) = x @ sep @ py_join sep (y # ys)"

definition digit_char :: "nat \<Rightarrow> char" where
  "digit_char d = ''0123456789'' ! d"

function str_nat :: "nat \<Rightarrow> string" where
  "str_nat n = (if n < 10 then [digit_char n] else str_nat (n div 10) @ [digit_char (n mod 10)])"
  by pat_completeness auto
termination
  by (relation "measure id") auto

declare str_nat.simps [simp del]

definition str_int :: "int \<Rightarrow> string" where
  "str_int i = (if i < 0 then CHR ''-'' # str_nat (nat (- i)) else str_nat (nat i))"

section \<open>CommandTranslator: the login command parsed inside \<open>execute_argocd_command\<close>\<close>

definition ALLOWED_GLOBAL_FLAGS :: "string set" where
  "ALLOWED_GLOBAL_FLAGS =
     {''--grpc-web'', ''--insecure'', ''--auth-token'', ''--port-forward'', ''--plaintext''}"

text \<open>
  The inner \<open>while\<close> loop (manager.py 171-182) over the tokens that follow the server
  position: an allowed flag is appended, \<open>--auth-token\<close> takes the next token with it when
  that token does not start with \<open>--\<close>, every other token is skipped.
\<close>

fun forward_flags :: "string list \<Rightarrow> string list" where
  "forward_flags [] = []"
| "forward_flags [part] = (if part \<in> ALLOWED_GLOBAL_FLAGS then [part] else [])"
| "forward_flags (part # nxt # rest) =
     (if part \<in> ALLOWED_GLOBAL_FLAGS
      then (if part = ''--auth-token'' \<and> \<not> is_flag nxt
            then part # nxt # forward_flags rest
            else part # forward_flags (nxt # rest))
      else forward_flags (nxt # rest))"

text \<open>
  The outer loop (manager.py 163-184): scan for the first token \<open>login\<close>; the token after
  it is the server URL unless it starts with \<open>--\<close>; the rest goes through the inner loop.
  The result is \<open>(server_url, connection_args)\<close>.
\<close>

fun parse_login :: "string list \<Rightarrow> string option \<times> string list" where
  "parse_login [] = (None, [])"
| "parse_login (part # rest) =
     (if part = ''login''
      then (case rest of
              [] \<Rightarrow> (None, [])
            | u # rest' \<Rightarrow>
                if \<not> is_flag u then (Some u, forward_flags rest')
                else (None, forward_flags rest))
      else parse_login rest)"

text \<open>The argv assembled at manager.py 186-189; \<open>if server_url:\<close> is Python truthiness.\<close>

definition build_cmd :: "string list \<Rightarrow> string option \<Rightarrow> string list \<Rightarrow> string list" where
  "build_cmd argocd_args server_url connection_args =
     [''argocd''] @ argocd_args
       @ (case server_url of None \<Rightarrow> [] | Some u \<Rightarrow> if u \<noteq> [] then [''--server'', u] else [])
       @ connection_args"

text \<open>
  The translation as one function of the stored login command and the subcommand
  arguments: manager.py 155-189, the tokens of \<open>login_cmd.split()\<close> parsed and the argv
  built from the result. It is the argv \<open>execute_argocd_command\<close> hands to the subprocess.
\<close>

definition translate :: "string \<Rightarrow> string list \<Rightarrow> string list" where
  "translate login_cmd argocd_args =
     (case parse_login (py_split login_cmd) of
        (server_url, connection_args) \<Rightarrow> build_cmd argocd_args server_url connection_args)"

section \<open>The manager, its environment and the session state\<close>

text \<open>
  The subprocesses, the operator at the terminal and the standard-library functions that
  are not part of the repository are the environment. \<open>proc n\<close> is the outcome of the
  \<open>n\<close>-th \<open>subprocess.run\<close> of the run, \<open>stdin n\<close> the line read by the \<open>n\<close>-th \<open>input()\<close>
  (\<open>None\<close> at end of input). \<open>ratio a b\<close> is \<open>difflib.SequenceMatcher(None, a, b).ratio()\<close>
  (the value of the float it returns), \<open>json_loads\<close> is \<open>json.loads\<close> (\<open>None\<close> when it
  raises), \<open>json_dumps_str\<close> is \<open>json.dumps\<close> on a string, \<open>shlex_split\<close> is \<open>shlex.split\<close>
  (\<open>None\<close> when it raises) and \<open>py_str\<close> is \<open>str\<close> on a decoded JSON value.
\<close>

datatype json = JNull | JBool bool | JNum real | JStr string | JArr "json list"
  | JObj "(string \<times> json) list"

datatype proc_outcome = Exited int string string | TimedOut | LaunchFailed string

datatype error = ConfigurationError string | CommandExecutionError string
  | JSONDecodeError | AttributeError | TypeError | ValueError | KeyError | EOFError
  | TimeoutExpired | OSError string

record env =
  proc :: "nat \<Rightarrow> proc_outcome"
  stdin :: "nat \<Rightarrow> string option"
  ratio :: "string \<Rightarrow> string \<Rightarrow> real"
  json_loads :: "string \<Rightarrow> json option"
  json_dumps_str :: "string \<Rightarrow> string"
  shlex_split :: "string \<Rightarrow> string list option"
  py_str :: "json \<Rightarrow> string"

text \<open>
  \<open>ArgoCDManager\<close>: the configuration is a dict from connection name to login command,
  kept as an association list in insertion order. None of the operations below changes
  it, nor \<open>verbose\<close> and \<open>allow_patch\<close>; \<open>_confirmed_production\<close> is the one field they
  mutate, so it lives in the session state.
\<close>

record manager =
  config :: "(string \<times> string) list"
  verbose :: bool
  allow_patch :: bool

text \<open>
  What a call leaves behind is a trace of events, one per effect, in order. \<open>Call\<close> is
  the entry into \<open>execute_argocd_command\<close> with the arguments it was given; \<open>ExecRun\<close>,
  \<open>LoginRun\<close> and \<open>PatchRun\<close> are the \<open>subprocess.run\<close> calls at manager.py 202, 243 and
  504/515; \<open>Input\<close> is \<open>input(prompt)\<close>, \<open>Print\<close> is \<open>print\<close> (colour codes left out, as
  after \<open>Colors.disable()\<close>), \<open>Sleep\<close> is \<open>time.sleep\<close>. \<open>logger.debug\<close> is not recorded.
\<close>

datatype event =
    Call string "string list" nat
  | ExecRun "string list" nat
  | LoginRun "string list"
  | PatchRun "string list"
  | Input string
  | Print string
  | Sleep nat

record session =
  confirmed_production :: "string set"
  runs :: nat
  reads :: nat
  trace :: "event list"

definition emit :: "event \<Rightarrow> session \<Rightarrow> session" where
  "emit e s = s\<lparr>trace := trace s @ [e]\<rparr>"

text \<open>One \<open>subprocess.run\<close>: the next outcome of the environment.\<close>

definition spawn :: "env \<Rightarrow> session \<Rightarrow> proc_outcome \<times> session" where
  "spawn ev s = (proc ev (runs s), s\<lparr>runs := Suc (runs s)\<rparr>)"

section \<open>NameResolver: \<open>fuzzy_match\<close> and \<open>validate_cluster\<close>\<close>

text \<open>
  The threshold of \<open>fuzzy_match\<close> defaults to the float literal \<open>0.6\<close>, the double nearest
  to 3/5, whose exact value is 5404319552844595 / 2^53 (a little below 3/5); \<open>best_ratio\<close>
  starts at the float \<open>0.0\<close>. Python compares floats exactly, so with \<open>ratio\<close> the exact
  value of the float that \<open>difflib\<close> returns, the comparisons of the code are the
  comparisons of these real numbers.
\<close>

definition float_0_6 :: real where
  "float_0_6 = 5404319552844595 / 9007199254740992"

definition fuzzy_step :: "env \<Rightarrow> string \<Rightarrow> real \<Rightarrow> string \<Rightarrow> string option \<times> real
    \<Rightarrow> string option \<times> real" where
  "fuzzy_step ev query threshold c acc =
     (case acc of (best, best_ratio) \<Rightarrow>
        let r = ratio ev (py_lower query) (py_lower c)
        in if r > best_ratio \<and> r \<ge> threshold then (Some c, r) else (best, best_ratio))"

definition fuzzy_match :: "env \<Rightarrow> string \<Rightarrow> string list \<Rightarrow> real \<Rightarrow> string option" where
  "fuzzy_match ev query choices threshold =
     (if query \<in> set choices then Some query
      else fst (fold (fuzzy_step ev query threshold) choices (None, 0)))"

text \<open>\<open>{k.lower(): k for k in self.config.keys()}\<close>: a later key overwrites an earlier one.\<close>

definition lower_map :: "string list \<Rightarrow> string \<rightharpoonup> string" where
  "lower_map keys = fold (\<lambda>k mp. mp(py_lower k \<mapsto> k)) keys Map.empty"

definition validate_cluster :: "manager \<Rightarrow> env \<Rightarrow> string \<Rightarrow> session \<Rightarrow> (error + string) \<times> session"
  where
  "validate_cluster m ev cluster_name s =
     (let keys = map fst (config m)
      in if cluster_name \<in> set keys then (Inr cluster_name, s)
         else (case lower_map keys (py_lower cluster_name) of
                 Some matched \<Rightarrow>
                   (Inr matched,
                    emit (Print (''Using '' @ [CHR 0x27] @ matched @ [CHR 0x27]
                            @ '' (case-insensitive) instead of '' @ [CHR 0x27] @ cluster_name
                            @ [CHR 0x27])) s)
               | None \<Rightarrow>
                   (case fuzzy_match ev cluster_name keys float_0_6 of
                      Some match \<Rightarrow>
                        if match \<noteq> []
                        then (Inr match,
                              emit (Print (''Using '' @ [CHR 0x27] @ match @ [CHR 0x27]
                                      @ '' instead of '' @ [CHR 0x27] @ cluster_name
                                      @ [CHR 0x27])) s)
                        else (Inl (ConfigurationError (''Cluster '' @ [CHR 0x27] @ cluster_name
                                      @ [CHR 0x27] @ '' not found'')), s)
                    | None \<Rightarrow>
                        (Inl (ConfigurationError (''Cluster '' @ [CHR 0x27] @ cluster_name
                                @ [CHR 0x27] @ '' not found'')), s))))"

section \<open>Executor: \<open>confirm_action\<close> and \<open>execute_argocd_command\<close>\<close>

text \<open>\<open>input(prompt)\<close>: the next line of the operator, \<open>None\<close> for \<open>EOFError\<close>.\<close>

definition py_input :: "env \<Rightarrow> string \<Rightarrow> session \<Rightarrow> string option \<times> session" where
  "py_input ev prompt s = (stdin ev (reads s), (emit (Input prompt) s)\<lparr>reads := Suc (reads s)\<rparr>)"

definition confirm_action :: "env \<Rightarrow> string \<Rightarrow> bool \<Rightarrow> session \<Rightarrow> (error + bool) \<times> session" where
  "confirm_action ev prompt dflt s =
     (let choices = (if dflt then ''Y/n'' else ''y/N'')
      in case py_input ev (prompt @ '' ['' @ choices @ '']: '') s of
           (None, s1) \<Rightarrow> (Inl EOFError, s1)
         | (Some line, s1) \<Rightarrow>
             (let response = py_lower (py_strip line)
              in if response = [] then (Inr dflt, s1)
                 else (Inr (response \<in> set [''y'', ''yes'']), s1)))"

text \<open>
  manager.py 202-220: what the \<open>try\<close> block makes of the subprocess. Exit status 0 returns
  \<open>res.stdout\<close>; a non-zero exit is \<open>CalledProcessError\<close> (\<open>check=True\<close>), handled by the first
  \<open>except\<close> clause; the other two clauses turn a timeout and any other exception into a
  \<open>CommandExecutionError\<close>.
\<close>

definition check_outcome :: "nat \<Rightarrow> string option \<Rightarrow> proc_outcome \<Rightarrow> error + string" where
  "check_outcome timeout server_url oc =
     (case oc of
        Exited code out err \<Rightarrow>
          if code = 0 then Inr out
          else (let stdout = py_strip out; stderr = py_strip err
                in if stdout \<noteq> [] then Inr stdout
                   else (let e = (if stderr \<noteq> [] then stderr else ''Unknown error'')
                         in Inl (CommandExecutionError
                                   (py_replace e (case server_url of None \<Rightarrow> [] | Some u \<Rightarrow> u)
                                      ''<server>''))))
      | TimedOut \<Rightarrow>
          Inl (CommandExecutionError (''Command timed out after '' @ str_nat timeout @ '' seconds''))
      | LaunchFailed msg \<Rightarrow> Inl (CommandExecutionError msg))"

definition run_checked :: "env \<Rightarrow> string list \<Rightarrow> nat \<Rightarrow> string option \<Rightarrow> session
    \<Rightarrow> (error + string) \<times> session" where
  "run_checked ev cmd timeout server_url s =
     (case spawn ev (emit (ExecRun cmd timeout) s) of
        (oc, s1) \<Rightarrow> (check_outcome timeout server_url oc, s1))"

definition is_production :: "string \<Rightarrow> bool" where
  "is_production cluster_name = py_contains ''prod'' (py_lower cluster_name)"

definition production_prompt :: "string \<Rightarrow> string" where
  "production_prompt cluster_name =
     ''Cluster '' @ [CHR 0x27] @ cluster_name @ [CHR 0x27]
       @ '' looks like production. Continue connecting?''"

definition execute_argocd_command :: "manager \<Rightarrow> env \<Rightarrow> string \<Rightarrow> string list \<Rightarrow> nat \<Rightarrow> bool
    \<Rightarrow> session \<Rightarrow> (error + string) \<times> session" where
  "execute_argocd_command m ev cluster_name argocd_args timeout quiet s =
     (case validate_cluster m ev cluster_name (emit (Call cluster_name argocd_args timeout) s) of
        (Inl e, s1) \<Rightarrow> (Inl e, s1)
      | (Inr cname, s1) \<Rightarrow>
          (case map_of (config m) cname of
             None \<Rightarrow> (Inl KeyError, s1)
           | Some login_cmd \<Rightarrow>
               (case parse_login (py_split login_cmd) of
                  (server_url, connection_args) \<Rightarrow>
                    (let cmd = build_cmd argocd_args server_url connection_args
                     in if is_production cname \<and> cname \<notin> confirmed_production s1
                        then (case confirm_action ev (production_prompt cname) False s1 of
                                (Inl e, s2) \<Rightarrow>
                                  (Inl (CommandExecutionError ''EOF when reading a line''), s2)
                              | (Inr resp, s2) \<Rightarrow>
                                  if \<not> resp
                                  then (Inl (CommandExecutionError
                                          ''User aborted connection to production cluster''), s2)
                                  else run_checked ev cmd timeout server_url
                                         (s2\<lparr>confirmed_production :=
                                                insert cname (confirmed_production s2)\<rparr>))
                        else run_checked ev cmd timeout server_url s1))))"

section \<open>SessionGuard: \<open>_handle_oidc_login\<close> and the guarded operations\<close>

definition apos :: string where
  "apos = [CHR 0x27]"

text \<open>The test of the poll loop (manager.py 271-272) on the message of a failed poll.\<close>

definition still_unauthenticated :: "string \<Rightarrow> bool" where
  "still_unauthenticated err =
     (py_contains ''Unauthenticated'' err \<or> py_contains ''invalid session'' err
      \<or> py_contains ''rpc error: code = Unauthenticated'' err)"

text \<open>The poll loop, \<open>for attempt in range(poll_attempts)\<close>, and the lines after it.\<close>

fun poll_session :: "manager \<Rightarrow> env \<Rightarrow> string \<Rightarrow> bool \<Rightarrow> nat list \<Rightarrow> session
    \<Rightarrow> (error + bool) \<times> session" where
  "poll_session m ev cluster_name quiet [] s =
     (Inr False,
      emit (Print (''Timed out waiting for authentication for '' @ apos @ cluster_name @ apos)) s)"
| "poll_session m ev cluster_name quiet (attempt # rest) s =
     (case execute_argocd_command m ev cluster_name [''proj'', ''list'', ''--output'', ''json'']
             5 quiet s of
        (Inr out, s1) \<Rightarrow>
          (let s2 = (if \<not> quiet \<and> \<not> verbose m
                     then emit (Print (''Authentication verified for '' @ apos @ cluster_name @ apos)) s1
                     else s1);
               s3 = (if is_production cluster_name
                     then s2\<lparr>confirmed_production := insert cluster_name (confirmed_production s2)\<rparr>
                     else s2)
           in (Inr True, s3))
      | (Inl (CommandExecutionError err), s1) \<Rightarrow>
          if still_unauthenticated err
          then poll_session m ev cluster_name quiet rest (emit (Sleep 2) s1)
          else (Inr False,
                if \<not> quiet
                then emit (Print (''Login ran but verification failed: '' @ err)) s1
                else s1)
      | (Inl e, s1) \<Rightarrow> (Inl e, s1))"

text \<open>
  \<open>_handle_oidc_login\<close>, manager.py 222-281. \<open>shlex.split\<close> stands before the \<open>try\<close>, so its
  \<open>ValueError\<close> leaves the function. The login subprocess is run without a timeout and
  without \<open>check\<close>: any exit status goes on to the polls, and any exception of
  \<open>subprocess.run\<close> is caught, printed and answered with \<open>False\<close> (a timeout cannot arise
  there; an environment that reports one is treated as any other exception).
\<close>

definition handle_oidc_login :: "manager \<Rightarrow> env \<Rightarrow> string \<Rightarrow> bool \<Rightarrow> session
    \<Rightarrow> (error + bool) \<times> session" where
  "handle_oidc_login m ev cluster_name quiet s =
     (case map_of (config m) cluster_name of
        None \<Rightarrow> (Inr False, emit (Print (''No login command available for '' @ cluster_name)) s)
      | Some login_cmd \<Rightarrow>
          if login_cmd = []
          then (Inr False, emit (Print (''No login command available for '' @ cluster_name)) s)
          else
            (let s1 = (if \<not> quiet \<and> \<not> verbose m
                       then emit (Print (''Stored login command: '' @ login_cmd))
                              (emit (Print (''Authentication required for '' @ apos @ cluster_name
                                       @ apos @ ''.'')) s)
                       else s)
             in case shlex_split ev login_cmd of
                  None \<Rightarrow> (Inl ValueError, s1)
                | Some parts \<Rightarrow>
                    (let s2 = (if \<not> quiet \<and> \<not> verbose m
                               then emit (Print ''Auto-running stored login command...'') s1
                               else s1)
                     in case spawn ev (emit (LoginRun parts) s2) of
                          (Exited code out err, s3) \<Rightarrow>
                            (let s4 = (if verbose m \<and> out \<noteq> [] then emit (Print out) s3 else s3);
                                 s5 = (if verbose m \<and> err \<noteq> [] then emit (Print err) s4 else s4);
                                 s6 = (if \<not> quiet \<and> \<not> verbose m
                                       then emit (Print ''Waiting for authentication to complete...'') s5
                                       else s5)
                             in poll_session m ev cluster_name quiet [0..<15] s6)
                        | (TimedOut, s3) \<Rightarrow>
                            (Inr False, emit (Print ''Failed to run login command: timed out'') s3)
                        | (LaunchFailed msg, s3) \<Rightarrow>
                            (Inr False, emit (Print (''Failed to run login command: '' @ msg)) s3))))"

text \<open>
  The test the five guarded operations make on the lowercased message of a failed call
  (manager.py 294, 319, 337, 354, 386).
\<close>

definition auth_failure :: "string \<Rightarrow> bool" where
  "auth_failure low =
     (\<exists>k \<in> set [''unauthenticated'', ''invalid session'', ''rpc error: code = unauthenticated'',
                 ''invalid_grant'', ''invalid refresh token'', ''oauth2'']. py_contains k low)"

text \<open>\<open>json.loads(out) if out else None\<close>; Python's \<open>None\<close> is \<open>JNull\<close>.\<close>

definition loads_or_none :: "env \<Rightarrow> string \<Rightarrow> error + json" where
  "loads_or_none ev out =
     (if out \<noteq> [] then (case json_loads ev out of None \<Rightarrow> Inl JSONDecodeError | Some j \<Rightarrow> Inr j)
      else Inr JNull)"

fun list_projects_loop :: "manager \<Rightarrow> env \<Rightarrow> string \<Rightarrow> nat list \<Rightarrow> session
    \<Rightarrow> (error + json) \<times> session" where
  "list_projects_loop m ev cluster_name [] s = (Inr JNull, s)"
| "list_projects_loop m ev cluster_name (attempt # rest) s =
     (case execute_argocd_command m ev cluster_name [''proj'', ''list'', ''--output'', ''json'']
             30 False s of
        (Inr out, s1) \<Rightarrow> (loads_or_none ev out, s1)
      | (Inl (CommandExecutionError err), s1) \<Rightarrow>
          if auth_failure (py_lower err) \<and> attempt = 0
          then (case handle_oidc_login m ev cluster_name False s1 of
                  (Inl e, s2) \<Rightarrow> (Inl e, s2)
                | (Inr ok, s2) \<Rightarrow>
                    if ok then list_projects_loop m ev cluster_name rest s2
                    else (Inr JNull, emit (Print (''Failed: '' @ err)) s2))
          else (Inr JNull, emit (Print (''Failed: '' @ err)) s1)
      | (Inl e, s1) \<Rightarrow> (Inl e, s1))"





fun get_application_status_loop :: "manager \<Rightarrow> env \<Rightarrow> string \<Rightarrow> string \<Rightarrow> bool \<Rightarrow> nat list
    \<Rightarrow> session \<Rightarrow> (error + json) \<times> session" where
  "get_application_status_loop m ev cluster_name app_name quiet [] s = (Inr JNull, s)"
| "get_application_status_loop m ev cluster_name app_name quiet (attempt # rest) s =
     (case execute_argocd_command m ev cluster_name [''app'', ''get'', app_name, ''--output'', ''json'']
             30 quiet s of
        (Inr out, s1) \<Rightarrow> (loads_or_none ev out, s1)
      | (Inl (CommandExecutionError err), s1) \<Rightarrow>
          if auth_failure (py_lower err) \<and> attempt = 0
          then (case handle_oidc_login m ev cluster_name quiet s1 of
                  (Inl e, s2) \<Rightarrow> (Inl e, s2)
                | (Inr ok, s2) \<Rightarrow>
                    if ok then get_application_status_loop m ev cluster_name app_name quiet rest s2
                    else (Inr JNull, emit (Print (''Failed: '' @ err)) s2))
          else (Inr JNull, emit (Print (''Failed: '' @ err)) s1)
      | (Inl e, s1) \<Rightarrow> (Inl e, s1))"

definition get_application_status' :: "manager \<Rightarrow> env \<Rightarrow> string \<Rightarrow> string \<Rightarrow> bool \<Rightarrow> session
    \<Rightarrow> (error + json) \<times> session" where
  "get_application_status' m ev cluster_name app_name quiet s =
     get_application_status_loop m ev cluster_name app_name quiet [0..<2] s"

definition get_application_status :: "manager \<Rightarrow> env \<Rightarrow> string \<Rightarrow> string \<Rightarrow> session
    \<Rightarrow> (error + json) \<times> session" where
  "get_application_status m ev cluster_name app_name s =
     get_application_status' m ev cluster_name app_name False s"







section \<open>Decoded JSON documents\<close>

text \<open>
  A decoded JSON object is a Python dict, kept as an association list with distinct keys.
  Each function below is one Python operation on a decoded value and returns the
  exception where Python raises one.
\<close>

fun truthy :: "json \<Rightarrow> bool" where
  "truthy JNull = False"
| "truthy (JBool b) = b"
| "truthy (JNum x) = (x \<noteq> 0)"
| "truthy (JStr t) = (t \<noteq> [])"
| "truthy (JArr xs) = (xs \<noteq> [])"
| "truthy (JObj kvs) = (kvs \<noteq> [])"

text \<open>\<open>d.get(k, dflt)\<close>: only a dict has the method.\<close>

fun dict_get :: "json \<Rightarrow> string \<Rightarrow> json \<Rightarrow> error + json" where
  "dict_get (JObj kvs) k dflt = Inr (case map_of kvs k of None \<Rightarrow> dflt | Some v \<Rightarrow> v)"
| "dict_get _ k dflt = Inl AttributeError"

text \<open>\<open>k in d\<close> for a string \<open>k\<close>: a key test on a dict, a substring test on a string, a
  membership test on a list, a \<open>TypeError\<close> on anything else.\<close>

fun key_in :: "string \<Rightarrow> json \<Rightarrow> error + bool" where
  "key_in k (JObj kvs) = Inr (k \<in> set (map fst kvs))"
| "key_in k (JStr t) = Inr (py_contains k t)"
| "key_in k (JArr xs) = Inr (JStr k \<in> set xs)"
| "key_in k _ = Inl TypeError"

text \<open>\<open>d[k]\<close> for a string \<open>k\<close>.\<close>

fun subscript :: "json \<Rightarrow> string \<Rightarrow> error + json" where
  "subscript (JObj kvs) k = (case map_of kvs k of None \<Rightarrow> Inl KeyError | Some v \<Rightarrow> Inr v)"
| "subscript _ k = Inl TypeError"

definition is_list :: "json \<Rightarrow> bool" where
  "is_list j = (case j of JArr xs \<Rightarrow> True | _ \<Rightarrow> False)"

definition is_dict :: "json \<Rightarrow> bool" where
  "is_dict j = (case j of JObj kvs \<Rightarrow> True | _ \<Rightarrow> False)"

text \<open>\<open>k in spec and isinstance(spec[k], ...)\<close>: the value under \<open>k\<close> when the test holds.\<close>

definition member_of_type :: "(json \<Rightarrow> bool) \<Rightarrow> string \<Rightarrow> json \<Rightarrow> error + json option" where
  "member_of_type tp k spec =
     (case key_in k spec of
        Inl e \<Rightarrow> Inl e
      | Inr present \<Rightarrow>
          if \<not> present then Inr None
          else (case subscript spec k of
                  Inl e \<Rightarrow> Inl e
                | Inr v \<Rightarrow> Inr (if tp v then Some v else None)))"

text \<open>manager.py 423-427.\<close>

definition app_sources :: "json \<Rightarrow> error + json list" where
  "app_sources spec =
     (case member_of_type is_list ''sources'' spec of
        Inl e \<Rightarrow> Inl e
      | Inr (Some v) \<Rightarrow> Inr (case v of JArr xs \<Rightarrow> xs | _ \<Rightarrow> [])
      | Inr None \<Rightarrow>
          (case member_of_type is_dict ''source'' spec of
             Inl e \<Rightarrow> Inl e
           | Inr (Some v) \<Rightarrow> Inr [v]
           | Inr None \<Rightarrow> Inr []))"

text \<open>\<open>s.get(k1) or s.get(k2)\<close>, and \<open>s.get('repoURL') or s.get('helm', {}).get('repo')\<close>.\<close>

definition get_or :: "json \<Rightarrow> string \<Rightarrow> string \<Rightarrow> error + json" where
  "get_or src k1 k2 =
     (case dict_get src k1 JNull of
        Inl e \<Rightarrow> Inl e
      | Inr v \<Rightarrow> if truthy v then Inr v else dict_get src k2 JNull)"

definition source_repourl :: "json \<Rightarrow> error + json" where
  "source_repourl src =
     (case dict_get src ''repoURL'' JNull of
        Inl e \<Rightarrow> Inl e
      | Inr v \<Rightarrow>
          if truthy v then Inr v
          else (case dict_get src ''helm'' (JObj []) of
                  Inl e \<Rightarrow> Inl e
                | Inr h \<Rightarrow> dict_get h ''repo'' JNull))"

text \<open>\<open>str.isdigit\<close> and \<open>int\<close> on a string for which \<open>isdigit\<close> holds: the superscript
  digits 0xB2, 0xB3 and 0xB9 are digits for \<open>isdigit\<close>, and \<open>int\<close> raises \<open>ValueError\<close> on
  them. (The interpreter's limit on the number of digits \<open>int\<close> accepts is left out.)\<close>

definition py_isdigit :: "string \<Rightarrow> bool" where
  "py_isdigit t = (t \<noteq> [] \<and> (\<forall>c \<in> set t. c \<in> set (''0123456789'' @ [CHR 0xB2, CHR 0xB3, CHR 0xB9])))"

definition digit_value :: "char \<Rightarrow> nat option" where
  "digit_value c = map_of (zip ''0123456789'' [0 ..< 10]) c"

fun py_int_aux :: "nat \<Rightarrow> string \<Rightarrow> nat option" where
  "py_int_aux acc [] = Some acc"
| "py_int_aux acc (c # cs) =
     (case digit_value c of None \<Rightarrow> None | Some d \<Rightarrow> py_int_aux (10 * acc + d) cs)"

definition py_int :: "string \<Rightarrow> nat option" where
  "py_int t = py_int_aux 0 t"

section \<open>RevisionMutator: \<open>set_application_target_revision\<close>\<close>

text \<open>manager.py 414-427: resolve the cluster, fetch the application, list its sources.
  \<open>None\<close> is the early \<open>return False\<close>.\<close>

definition fetch_sources :: "manager \<Rightarrow> env \<Rightarrow> string \<Rightarrow> string \<Rightarrow> session
    \<Rightarrow> (error + (string \<times> json \<times> json list) option) \<times> session" where
  "fetch_sources m ev cluster_name app_name s =
     (case validate_cluster m ev cluster_name s of
        (Inl e, s1) \<Rightarrow> (Inl e, s1)
      | (Inr cname, s1) \<Rightarrow>
          (case get_application_status m ev cname app_name s1 of
             (Inl e, s2) \<Rightarrow> (Inl e, s2)
           | (Inr app_status, s2) \<Rightarrow>
               if \<not> truthy app_status
               then (Inr None,
                     emit (Print (''Unable to fetch application status for '' @ app_name)) s2)
               else (case dict_get app_status ''spec'' (JObj []) of
                       Inl e \<Rightarrow> (Inl e, s2)
                     | Inr spec \<Rightarrow>
                         (case app_sources spec of
                            Inl e \<Rightarrow> (Inl e, s2)
                          | Inr sources \<Rightarrow> (Inr (Some (cname, app_status, sources)), s2)))))"

text \<open>manager.py 432-436: the first source whose repository equals \<open>repo\<close>, trailing
  slashes apart.\<close>

fun match_repo :: "string \<Rightarrow> json list \<Rightarrow> nat \<Rightarrow> error + int option" where
  "match_repo repo [] i = Inr None"
| "match_repo repo (src # rest) i =
     (case source_repourl src of
        Inl e \<Rightarrow> Inl e
      | Inr repourl \<Rightarrow>
          if truthy repourl
          then (case repourl of
                  JStr u \<Rightarrow>
                    if py_rstrip_slash u = py_rstrip_slash repo then Inr (Some (int i))
                    else match_repo repo rest (Suc i)
                | _ \<Rightarrow> Inl AttributeError)
          else match_repo repo rest (Suc i))"

definition fmt :: "env \<Rightarrow> json \<Rightarrow> string" where
  "fmt ev j = (case j of JStr t \<Rightarrow> t | _ \<Rightarrow> py_str ev j)"

definition or_default :: "json \<Rightarrow> string \<Rightarrow> json" where
  "or_default v dflt = (if truthy v then v else JStr dflt)"

text \<open>manager.py 441-445: one line per source.\<close>

fun print_sources :: "env \<Rightarrow> json list \<Rightarrow> nat \<Rightarrow> session \<Rightarrow> (error + unit) \<times> session" where
  "print_sources ev [] i s = (Inr (), s)"
| "print_sources ev (src # rest) i s =
     (case source_repourl src of
        Inl e \<Rightarrow> (Inl e, s)
      | Inr repourl \<Rightarrow>
          (case get_or src ''targetRevision'' ''ref'' of
             Inl e \<Rightarrow> (Inl e, s)
           | Inr tgt \<Rightarrow>
               (case get_or src ''chart'' ''path'' of
                  Inl e \<Rightarrow> (Inl e, s)
                | Inr chart \<Rightarrow>
                    print_sources ev rest (Suc i)
                      (emit (Print (''  ['' @ str_nat i @ ''] repo: ''
                                @ fmt ev (or_default repourl ''<no-repo>'')
                                @ '' | chart/path: '' @ fmt ev (or_default chart ''<no-chart>'')
                                @ '' | targetRevision: '' @ fmt ev (or_default tgt ''<none>''))) s))))"

text \<open>
  manager.py 448-462: the chooser reads lines until one is a skip word or the index of a
  source. Nothing bounds the number of invalid answers, so the loop is a partial function:
  \<open>None\<close> is a run that never leaves it. Inside, \<open>Inr None\<close> is \<open>return False\<close>.
\<close>

definition chooser_prompt :: "string \<Rightarrow> string" where
  "chooser_prompt cluster_name =
     ''Select source index to update for cluster '' @ apos @ cluster_name @ apos
       @ '' (enter number, or '' @ apos @ ''s'' @ apos @ '' to skip): ''"

definition invalid_selection :: string where
  "invalid_selection =
     ''Invalid selection. Please enter a valid index or '' @ [CHR 0x22] @ ''s'' @ [CHR 0x22]
       @ '' to skip.''"

partial_function (option) choose_source :: "env \<Rightarrow> string \<Rightarrow> nat \<Rightarrow> session
    \<Rightarrow> ((error + nat option) \<times> session) option" where
  "choose_source ev cluster_name n s =
     (case py_input ev (chooser_prompt cluster_name) s of
        (None, s1) \<Rightarrow>
          Some (Inr None, emit (Print (CHR 0x0A # ''No input available; skipping'')) s1)
      | (Some line, s1) \<Rightarrow>
          (let choice = py_strip line
           in if choice = [] \<or> py_lower choice \<in> set [''s'', ''skip'', ''n'', ''no'']
              then Some (Inr None, emit (Print ''Skipping'') s1)
              else if py_isdigit choice
              then (case py_int choice of
                      None \<Rightarrow> Some (Inl ValueError, s1)
                    | Some ci \<Rightarrow>
                        if ci < n then Some (Inr (Some ci), s1)
                        else choose_source ev cluster_name n (emit (Print invalid_selection) s1))
              else choose_source ev cluster_name n (emit (Print invalid_selection) s1)))"

declare choose_source.simps [code]

text \<open>
  manager.py 430-462: the index of the source to update. \<open>Skipped\<close> is the \<open>return False\<close>
  of the chooser; \<open>Index None\<close> is \<open>resolved_index is None\<close> on the single-source path.
\<close>

datatype chosen = Skipped | Index "int option"

definition str_truthy :: "string option \<Rightarrow> bool" where
  "str_truthy x = (case x of None \<Rightarrow> False | Some t \<Rightarrow> t \<noteq> [])"

definition resolve_index :: "env \<Rightarrow> string \<Rightarrow> string \<Rightarrow> string option \<Rightarrow> int option
    \<Rightarrow> json list \<Rightarrow> session \<Rightarrow> ((error + chosen) \<times> session) option" where
  "resolve_index ev cluster_name app_name repo source_index sources s =
     (case (if str_truthy repo \<and> sources \<noteq> [] \<and> length sources > 1 \<and> source_index = None
            then match_repo (the repo) sources 0 else Inr source_index) of
        Inl e \<Rightarrow> Some (Inl e, s)
      | Inr resolved_index \<Rightarrow>
          if length sources > 1 \<and> resolved_index = None
          then (case print_sources ev sources 0
                       (emit (Print (CHR 0x0A # ''Application has multiple sources. ''
                                @ ''Choose which source to update for '' @ apos @ app_name @ apos
                                @ '' on '' @ apos @ cluster_name @ apos @ '':'')) s) of
                  (Inl e, s1) \<Rightarrow> Some (Inl e, s1)
                | (Inr u, s1) \<Rightarrow>
                    (case choose_source ev cluster_name (length sources) s1 of
                       None \<Rightarrow> None
                     | Some (Inl e, s2) \<Rightarrow> Some (Inl e, s2)
                     | Some (Inr None, s2) \<Rightarrow> Some (Inr Skipped, s2)
                     | Some (Inr (Some ci), s2) \<Rightarrow> Some (Inr (Index (Some (int ci))), s2)))
          else Some (Inr (Index resolved_index), s))"

text \<open>manager.py 465-470: the primary command; the source position is 1-based.\<close>

definition set_cmd :: "string \<Rightarrow> string \<Rightarrow> string option \<Rightarrow> int option \<Rightarrow> string list" where
  "set_cmd app_name revision repo resolved_index =
     [''app'', ''set'', app_name, ''--revision'', revision]
       @ (if str_truthy repo then [''--repo'', the repo] else [])
       @ (case resolved_index of None \<Rightarrow> []
          | Some i \<Rightarrow> [''--source-position'', str_int (i + 1)])"

text \<open>manager.py 494-502: the patch body (\<open>json.dumps\<close> of the patch object) and the
  \<open>kubectl\<close> argv.\<close>

definition dq :: string where
  "dq = [CHR 0x22]"

definition patch_str :: "env \<Rightarrow> string \<Rightarrow> int option \<Rightarrow> string" where
  "patch_str ev revision resolved_index =
     (case resolved_index of
        Some i \<Rightarrow>
          ''[{'' @ dq @ ''op'' @ dq @ '': '' @ dq @ ''replace'' @ dq @ '', ''
            @ dq @ ''path'' @ dq @ '': ''
            @ json_dumps_str ev (''/spec/sources/'' @ str_int i @ ''/targetRevision'') @ '', ''
            @ dq @ ''value'' @ dq @ '': '' @ json_dumps_str ev revision @ ''}]''
      | None \<Rightarrow>
          ''{'' @ dq @ ''spec'' @ dq @ '': {'' @ dq @ ''source'' @ dq @ '': {''
            @ dq @ ''targetRevision'' @ dq @ '': '' @ json_dumps_str ev revision @ ''}}}'')"

definition patch_cmd :: "env \<Rightarrow> string \<Rightarrow> string \<Rightarrow> string \<Rightarrow> int option \<Rightarrow> string list" where
  "patch_cmd ev kube_ns app_name revision resolved_index =
     (case resolved_index of
        Some i \<Rightarrow>
          [''kubectl'', ''-n'', kube_ns, ''patch'', ''applications.argoproj.io'', app_name,
           ''--type=json'', ''-p'', patch_str ev revision resolved_index]
      | None \<Rightarrow>
          [''kubectl'', ''-n'', kube_ns, ''patch'', ''applications.argoproj.io'', app_name,
           ''--type'', ''merge'', ''-p'', patch_str ev revision resolved_index])"

text \<open>
  manager.py 489-521: the fallback. Only \<open>CalledProcessError\<close> is caught, so any other
  exception of \<open>subprocess.run\<close> leaves the function; a namespace that is not a string
  makes \<open>subprocess.run\<close> raise \<open>TypeError\<close> before any process starts. The retry assigns
  \<open>patch_cmd[3] = 'applications'\<close> and runs the list again.
\<close>

definition kubectl_patch :: "env \<Rightarrow> json \<Rightarrow> string \<Rightarrow> string \<Rightarrow> int option \<Rightarrow> session
    \<Rightarrow> (error + bool) \<times> session" where
  "kubectl_patch ev app_status app_name revision resolved_index s =
     (case dict_get app_status ''metadata'' (JObj []) of
        Inl e \<Rightarrow> (Inl e, s)
      | Inr md \<Rightarrow>
          (case dict_get md ''namespace'' JNull of
             Inl e \<Rightarrow> (Inl e, s)
           | Inr nsv \<Rightarrow>
               (case or_default nsv ''argocd'' of
                  JStr kube_ns \<Rightarrow>
                    (let cmd = patch_cmd ev kube_ns app_name revision resolved_index
                     in case spawn ev (emit (PatchRun cmd) s) of
                          (Exited code out err, s1) \<Rightarrow>
                            if code = 0
                            then (Inr True, if out \<noteq> [] then emit (Print out) s1 else s1)
                            else (let cmd2 = cmd[3 := ''applications'']
                                  in case spawn ev (emit (PatchRun cmd2) s1) of
                                       (Exited code2 out2 err2, s2) \<Rightarrow>
                                         if code2 = 0
                                         then (Inr True,
                                               if out2 \<noteq> [] then emit (Print out2) s2 else s2)
                                         else (Inr False,
                                               emit (Print (''kubectl patch failed: ''
                                                       @ (if err \<noteq> [] then err else out))) s2)
                                     | (TimedOut, s2) \<Rightarrow> (Inl TimeoutExpired, s2)
                                     | (LaunchFailed msg, s2) \<Rightarrow> (Inl (OSError msg), s2))
                        | (TimedOut, s1) \<Rightarrow> (Inl TimeoutExpired, s1)
                        | (LaunchFailed msg, s1) \<Rightarrow> (Inl (OSError msg), s1))
                | _ \<Rightarrow> (Inl TypeError, s))))"

text \<open>manager.py 464-521, from the command on.\<close>

definition apply_revision :: "manager \<Rightarrow> env \<Rightarrow> string \<Rightarrow> string \<Rightarrow> string \<Rightarrow> string option
    \<Rightarrow> int option \<Rightarrow> bool \<Rightarrow> json \<Rightarrow> session \<Rightarrow> (error + bool) \<times> session" where
  "apply_revision m ev cluster_name app_name revision repo resolved_index dry_run app_status s =
     (let cmd = set_cmd app_name revision repo resolved_index
      in if dry_run
         then (Inr True,
               emit (Print (''DRY RUN: argocd '' @ py_join '' '' cmd
                       @ '' --server <server-from-config>'')) s)
         else (case execute_argocd_command m ev cluster_name cmd 30 False s of
                 (Inr out, s1) \<Rightarrow>
                   (Inr True, if verbose m \<and> out \<noteq> [] then emit (Print out) s1 else s1)
               | (Inl (CommandExecutionError e), s1) \<Rightarrow>
                   (let s2 = emit (Print (''argocd app set failed: '' @ e @ ''.'')) s1
                    in if \<not> allow_patch m
                       then (Inr False,
                             emit (Print (''kubectl patch fallback is disabled. ''
                                     @ ''To enable, run with --allow-patch.'')) s2)
                       else kubectl_patch ev app_status app_name revision resolved_index s2)
               | (Inl x, s1) \<Rightarrow> (Inl x, s1)))"

definition set_application_target_revision :: "manager \<Rightarrow> env \<Rightarrow> string \<Rightarrow> string \<Rightarrow> string
    \<Rightarrow> string option \<Rightarrow> int option \<Rightarrow> bool \<Rightarrow> session \<Rightarrow> ((error + bool) \<times> session) option"
  where
  "set_application_target_revision m ev cluster_name app_name revision repo source_index dry_run s =
     (case fetch_sources m ev cluster_name app_name s of
        (Inl e, s1) \<Rightarrow> Some (Inl e, s1)
      | (Inr None, s1) \<Rightarrow> Some (Inr False, s1)
      | (Inr (Some (cname, app_status, sources)), s1) \<Rightarrow>
          (case resolve_index ev cname app_name repo source_index sources s1 of
             None \<Rightarrow> None
           | Some (Inl e, s2) \<Rightarrow> Some (Inl e, s2)
           | Some (Inr Skipped, s2) \<Rightarrow> Some (Inr False, s2)
           | Some (Inr (Index resolved_index), s2) \<Rightarrow>
               Some (apply_revision m ev cname app_name revision repo resolved_index dry_run
                       app_status s2)))"

section \<open>Scripted environments\<close>

text \<open>
  An environment that answers the subprocesses and the prompts from two lists, for the
  concrete runs below. Past the end of the lists a subprocess fails to start and the
  input is at its end. The library functions are stand-ins: \<open>ratio\<close> is 1 on equal strings
  and 0 otherwise, \<open>json_loads\<close> decodes nothing, \<open>json_dumps_str\<close> puts its argument between
  double quotes, \<open>shlex_split\<close> splits at whitespace.
\<close>

definition scripted :: "proc_outcome list \<Rightarrow> string list \<Rightarrow> env" where
  "scripted outcomes lines =
     \<lparr>proc = (\<lambda>n. if n < length outcomes then outcomes ! n else LaunchFailed ''no such process''),
      stdin = (\<lambda>n. if n < length lines then Some (lines ! n) else None),
      ratio = (\<lambda>a b. if a = b then 1 else 0),
      json_loads = (\<lambda>t. None),
      json_dumps_str = (\<lambda>t. dq @ t @ dq),
      shlex_split = (\<lambda>t. Some (py_split t)),
      py_str = (\<lambda>j. [])\<rparr>"

definition fresh :: session where
  "fresh = \<lparr>confirmed_production = {}, runs = 0, reads = 0, trace = []\<rparr>"

definition mgr :: "(string \<times> string) list \<Rightarrow> manager" where
  "mgr cfg = \<lparr>config = cfg, verbose = False, allow_patch = False\<rparr>"

section \<open>Reading a run\<close>

text \<open>
  The name \<open>validate_cluster\<close> returns does not depend on the session. The predicates
  below select events of a trace by kind; a mutation is a subprocess for
  \<open>argocd app set\<close> or a \<open>kubectl\<close> subprocess.
\<close>

definition resolve :: "manager \<Rightarrow> env \<Rightarrow> string \<Rightarrow> error + string" where
  "resolve m ev cluster_name = fst (validate_cluster m ev cluster_name fresh)"

fun is_call :: "event \<Rightarrow> bool" where
  "is_call (Call c a t) = True"
| "is_call _ = False"

fun is_exec_run :: "event \<Rightarrow> bool" where
  "is_exec_run (ExecRun cmd t) = True"
| "is_exec_run _ = False"

fun is_input :: "event \<Rightarrow> bool" where
  "is_input (Input p) = True"
| "is_input _ = False"

fun is_patch_run :: "event \<Rightarrow> bool" where
  "is_patch_run (PatchRun cmd) = True"
| "is_patch_run _ = False"

fun is_mutation :: "event \<Rightarrow> bool" where
  "is_mutation (ExecRun cmd t) = (take 2 (drop 1 cmd) = [''app'', ''set''])"
| "is_mutation (PatchRun cmd) = True"
| "is_mutation _ = False"

text \<open>The event of the production prompt: \<open>confirm_action\<close> with \<open>default=False\<close>.\<close>

definition gate_prompt :: "string \<Rightarrow> event" where
  "gate_prompt cname = Input (production_prompt cname @ '' [y/N]: '')"

text \<open>
  \<open>extends P s s'\<close>: the session \<open>s'\<close> continues \<open>s\<close> with events that all satisfy \<open>P\<close>, and
  no cluster has left the confirmation set. \<open>exec_event\<close> describes the events of one
  Executor call, \<open>login_event\<close> those of one login-recovery cycle.
\<close>

definition extends :: "(event \<Rightarrow> bool) \<Rightarrow> session \<Rightarrow> session \<Rightarrow> bool" where
  "extends P s s' =
     (\<exists>evs. trace s' = trace s @ evs \<and> list_all P evs
            \<and> confirmed_production s \<subseteq> confirmed_production s')"

definition exec_event :: "string \<Rightarrow> string list \<Rightarrow> nat \<Rightarrow> event \<Rightarrow> bool" where
  "exec_event c args t e =
     (case e of
        Call c' args' t' \<Rightarrow> c' = c \<and> args' = args \<and> t' = t
      | ExecRun cmd t' \<Rightarrow> t' = t \<and> prefix (''argocd'' # args) cmd
      | Input p \<Rightarrow> True
      | Print p \<Rightarrow> True
      | _ \<Rightarrow> False)"

definition login_event :: "string \<Rightarrow> event \<Rightarrow> bool" where
  "login_event c e =
     (case e of
        LoginRun parts \<Rightarrow> True
      | Sleep n \<Rightarrow> True
      | _ \<Rightarrow> exec_event c [''proj'', ''list'', ''--output'', ''json''] 5 e)"

text \<open>\<open>guard_event\<close>: the events of a guarded operation on the command \<open>args\<close>.\<close>

definition guard_event :: "string \<Rightarrow> string list \<Rightarrow> nat \<Rightarrow> event \<Rightarrow> bool" where
  "guard_event c args t e = (exec_event c args t e \<or> login_event c e)"


section \<open>Command translation\<close>








lemma parse_login_none: "''login'' \<notin> set ts \<Longrightarrow> parse_login ts = (None, [])"
  by (induction ts) auto















section \<open>The Executor\<close>

lemma emit_simps [simp]:
  "trace (emit e s) = trace s @ [e]"
  "confirmed_production (emit e s) = confirmed_production s"
  "runs (emit e s) = runs s"
  "reads (emit e s) = reads s"
  by (simp_all add: emit_def)

lemma validate_cluster_eq:
  "validate_cluster m ev c s
     = (resolve m ev c, s\<lparr>trace := trace s @ trace (snd (validate_cluster m ev c fresh))\<rparr>)"
  by (simp add: validate_cluster_def resolve_def Let_def fresh_def emit_def
           split: option.splits)

lemma confirm_action_snd:
  "snd (confirm_action ev p d s)
     = s\<lparr>trace := trace s @ [Input (p @ '' ['' @ (if d then ''Y/n'' else ''y/N'') @ '']: '')],
         reads := Suc (reads s)\<rparr>"
  by (simp add: confirm_action_def py_input_def emit_def Let_def split: option.splits)

lemma confirm_action_fst:
  "reads s' = reads s \<Longrightarrow> fst (confirm_action ev p d s') = fst (confirm_action ev p d s)"
  by (simp add: confirm_action_def py_input_def Let_def split: option.splits)

lemma run_checked_eq:
  "run_checked ev cmd t url s
     = (check_outcome t url (proc ev (runs s)),
        s\<lparr>trace := trace s @ [ExecRun cmd t], runs := Suc (runs s)\<rparr>)"
  by (simp add: run_checked_def spawn_def emit_def)


lemma execute_resolved:
  assumes "resolve m ev c = Inr cname" and "map_of (config m) cname = Some login_cmd"
    and "parse_login (py_split login_cmd) = (url, conn)"
  shows "execute_argocd_command m ev c args t qu s =
    (let pre = trace s @ Call c args t # trace (snd (validate_cluster m ev c fresh));
         cmd = build_cmd args url conn
     in if is_production cname \<and> cname \<notin> confirmed_production s
        then (case fst (confirm_action ev (production_prompt cname) False s) of
                Inl e \<Rightarrow>
                  (Inl (CommandExecutionError ''EOF when reading a line''),
                   s\<lparr>trace := pre @ [gate_prompt cname], reads := Suc (reads s)\<rparr>)
              | Inr resp \<Rightarrow>
                  if resp
                  then (check_outcome t url (proc ev (runs s)),
                        s\<lparr>trace := pre @ [gate_prompt cname, ExecRun cmd t],
                           reads := Suc (reads s), runs := Suc (runs s),
                           confirmed_production := insert cname (confirmed_production s)\<rparr>)
                  else (Inl (CommandExecutionError ''User aborted connection to production cluster''),
                        s\<lparr>trace := pre @ [gate_prompt cname], reads := Suc (reads s)\<rparr>))
        else (check_outcome t url (proc ev (runs s)),
              s\<lparr>trace := pre @ [ExecRun cmd t], runs := Suc (runs s)\<rparr>))"
proof -
  let ?s1 = "(emit (Call c args t) s)\<lparr>trace := trace (emit (Call c args t) s)
                 @ trace (snd (validate_cluster m ev c fresh))\<rparr>"
  have v: "validate_cluster m ev c (emit (Call c args t) s) = (Inr cname, ?s1)"
    using validate_cluster_eq [of m ev c "emit (Call c args t) s"] assms(1) by simp
  show ?thesis
    unfolding execute_argocd_command_def v
    by (cases "stdin ev (reads s)")
       (simp_all add: assms(2,3) confirm_action_def py_input_def run_checked_eq Let_def
          emit_def gate_prompt_def)
qed


lemma execute_runs_translate:
  assumes "resolve m ev c = Inr cname" and "map_of (config m) cname = Some login_cmd"
  shows "set (filter is_exec_run (trace (snd (execute_argocd_command m ev c args t qu s))))
           \<subseteq> set (filter is_exec_run (trace s)) \<union> {ExecRun (translate login_cmd args) t}"
proof -
  obtain url conn where p: "parse_login (py_split login_cmd) = (url, conn)"
    by (cases "parse_login (py_split login_cmd)")
  have w: "\<And>e. e \<in> set (trace (snd (validate_cluster m ev c fresh))) \<Longrightarrow> \<not> is_exec_run e"
    by (auto simp: validate_cluster_def Let_def emit_def fresh_def split: option.splits if_splits)
  show ?thesis
    unfolding execute_resolved [OF assms p]
    using w by (auto simp: Let_def translate_def p gate_prompt_def split: sum.splits)
qed

lemma execute_unresolved:
  assumes "resolve m ev c = Inl e"
  shows "execute_argocd_command m ev c args t qu s
           = (Inl e, s\<lparr>trace := trace s @ Call c args t # trace (snd (validate_cluster m ev c fresh))\<rparr>)"
proof -
  have v: "validate_cluster m ev c (emit (Call c args t) s)
             = (Inl e, (emit (Call c args t) s)\<lparr>trace := trace (emit (Call c args t) s)
                 @ trace (snd (validate_cluster m ev c fresh))\<rparr>)"
    using validate_cluster_eq [of m ev c "emit (Call c args t) s"] assms by simp
  show ?thesis unfolding execute_argocd_command_def v by (simp add: emit_def)
qed

lemma validate_prints:
  "e \<in> set (trace (snd (validate_cluster m ev c s0))) \<Longrightarrow> e \<in> set (trace s0) \<or> (\<exists>p. e = Print p)"
  by (auto simp: validate_cluster_def Let_def emit_def split: option.splits if_splits)

lemma warnings_prints:
  "e \<in> set (trace (snd (validate_cluster m ev c fresh))) \<Longrightarrow> \<exists>p. e = Print p"
  using validate_prints [of e m ev c fresh] by (simp add: fresh_def)

lemma warnings_filter [simp]:
  "filter is_exec_run (trace (snd (validate_cluster m ev c fresh))) = []"
  "filter is_input (trace (snd (validate_cluster m ev c fresh))) = []"
  "filter is_call (trace (snd (validate_cluster m ev c fresh))) = []"
  "filter is_patch_run (trace (snd (validate_cluster m ev c fresh))) = []"
  "filter is_mutation (trace (snd (validate_cluster m ev c fresh))) = []"
  by (auto simp: filter_empty_conv dest!: warnings_prints)

lemma check_outcome_error:
  "check_outcome t url oc = Inl e \<Longrightarrow> \<exists>msg. e = CommandExecutionError msg"
  by (auto simp: check_outcome_def Let_def split: proc_outcome.splits if_splits)

lemma check_outcome_nonzero:
  "code \<noteq> 0 \<Longrightarrow>
   check_outcome t url (Exited code out err)
     = (if py_strip out \<noteq> [] then Inr (py_strip out)
        else Inl (CommandExecutionError
               (py_replace (if py_strip err \<noteq> [] then py_strip err else ''Unknown error'')
                  (case url of None \<Rightarrow> [] | Some u \<Rightarrow> u) ''<server>'')))"
  by (simp add: check_outcome_def Let_def)

text \<open>
  C4, amended. For every execution whose subprocess exits non-zero: if its stdout, with
  the surrounding whitespace stripped, is non-empty, the Executor returns that stripped
  stdout as a success; otherwise, when a server URL was parsed, it fails with a
  \<open>CommandExecutionError\<close> whose message is the stripped stderr (\<open>Unknown error\<close> when that
  is empty) with every occurrence of the server URL replaced by \<open><server>\<close>.
\<close>

theorem nonzero_exit_result:
  assumes "resolve m ev cluster_name = Inr cname"
    and "map_of (config m) cname = Some login_cmd"
    and "parse_login (py_split login_cmd) = (server_url, connection_args)"
    and "\<not> (is_production cname \<and> cname \<notin> confirmed_production s)
         \<or> fst (confirm_action ev (production_prompt cname) False s) = Inr True"
    and "proc ev (runs s) = Exited code out err" and "code \<noteq> 0"
  shows "(py_strip out \<noteq> [] \<longrightarrow>
            fst (execute_argocd_command m ev cluster_name argocd_args timeout quiet s)
              = Inr (py_strip out))
       \<and> (py_strip out = [] \<longrightarrow>
            (\<forall>u. server_url = Some u \<longrightarrow>
               fst (execute_argocd_command m ev cluster_name argocd_args timeout quiet s)
                 = Inl (CommandExecutionError
                          (py_replace (if py_strip err \<noteq> [] then py_strip err
                                       else ''Unknown error'') u ''<server>''))))"
proof -
  have "fst (execute_argocd_command m ev cluster_name argocd_args timeout quiet s)
          = check_outcome timeout server_url (Exited code out err)"
    using assms(4,5)
    by (auto simp: execute_resolved [OF assms(1,2,3)] Let_def)
  then show ?thesis using assms(6) by (simp add: check_outcome_nonzero)
qed


text \<open>Unfolding sets for concrete runs.\<close>

lemmas str_eval = py_split_def py_isspace_def is_flag_def ALLOWED_GLOBAL_FLAGS_def
  py_lower_def py_lower_char_def upper_chars_def lower_chars_def py_strip_def
  py_replace_def replace_nonempty.simps

lemmas run_eval = resolve_def validate_cluster_def fresh_def mgr_def scripted_def
  is_production_def production_prompt_def confirm_action_def py_input_def emit_def
  execute_argocd_command_def run_checked_def spawn_def check_outcome_def build_cmd_def
  Let_def

theorem nonzero_exit_result_witness:
  "resolve (mgr [(''c1'', ''argocd login svc.example.com --grpc-web'')])
       (scripted [Exited 1 [] ''dial svc.example.com: refused''] []) ''c1'' = Inr ''c1''
   \<and> parse_login (py_split ''argocd login svc.example.com --grpc-web'')
       = (Some ''svc.example.com'', [''--grpc-web''])
   \<and> \<not> is_production ''c1''
   \<and> proc (scripted [Exited 1 [] ''dial svc.example.com: refused''] []) (runs fresh)
       = Exited 1 [] ''dial svc.example.com: refused''
   \<and> fst (execute_argocd_command (mgr [(''c1'', ''argocd login svc.example.com --grpc-web'')])
            (scripted [Exited 1 [] ''dial svc.example.com: refused''] []) ''c1''
            [''app'', ''list''] 30 False fresh)
       = Inl (CommandExecutionError ''dial <server>: refused'')"
proof -
  let ?m = "mgr [(''c1'', ''argocd login svc.example.com --grpc-web'')]"
  let ?ev = "scripted [Exited 1 [] ''dial svc.example.com: refused''] []"
  have r: "resolve ?m ?ev ''c1'' = Inr ''c1''" by (simp add: run_eval)
  have l: "map_of (config ?m) ''c1'' = Some ''argocd login svc.example.com --grpc-web''"
    by (simp add: mgr_def)
  have p: "parse_login (py_split ''argocd login svc.example.com --grpc-web'')
             = (Some ''svc.example.com'', [''--grpc-web''])"
    by (simp add: str_eval)
  have np: "\<not> is_production ''c1''" by (simp add: is_production_def str_eval)
  then have g: "\<not> (is_production ''c1'' \<and> ''c1'' \<notin> confirmed_production fresh)
         \<or> fst (confirm_action ?ev (production_prompt ''c1'') False fresh) = Inr True"
    by simp
  have o: "proc ?ev (runs fresh) = Exited 1 [] ''dial svc.example.com: refused''"
    by (simp add: scripted_def fresh_def)
  have c: "(1::int) \<noteq> 0" by simp
  have e: "py_strip [] = []" by (simp add: py_strip_def)
  have x: "py_replace (if py_strip ''dial svc.example.com: refused'' \<noteq> []
                       then py_strip ''dial svc.example.com: refused'' else ''Unknown error'')
              ''svc.example.com'' ''<server>'' = ''dial <server>: refused''"
    by (simp add: str_eval)
  from nonzero_exit_result [OF r l p g o c, of "[''app'', ''list'']" 30 False] e x
  have "fst (execute_argocd_command ?m ?ev ''c1'' [''app'', ''list''] 30 False fresh)
       = Inl (CommandExecutionError ''dial <server>: refused'')"
    by simp
  with r p np o show ?thesis by (intro conjI)
qed

text \<open>
  C4, as the claim states it, fails: a subprocess that exits with status 1 and writes a
  single space to stdout has a non-empty stdout, and the Executor fails with the stderr
  text instead of returning the stdout.
\<close>

theorem whitespace_stdout_counterexample:
  "proc (scripted [Exited 1 '' '' ''rpc error''] []) (runs fresh) = Exited 1 '' '' ''rpc error''
   \<and> '' '' \<noteq> []
   \<and> fst (execute_argocd_command (mgr [(''c1'', ''argocd login svc.example.com --grpc-web'')])
            (scripted [Exited 1 '' '' ''rpc error''] []) ''c1'' [''app'', ''diff'', ''web'']
            30 False fresh)
       = Inl (CommandExecutionError ''rpc error'')"
  by (simp add: run_eval str_eval)

section \<open>Redaction with no server URL\<close>

lemma intersperse_shape:
  "\<exists>mid. ''<server>'' @ concat (map (\<lambda>c. c # ''<server>'') e) = CHR ''<'' # mid @ [CHR ''>'']"
proof (induction e rule: rev_induct)
  case Nil
  have "''<server>'' @ concat (map (\<lambda>c. c # ''<server>'') []) = CHR ''<'' # ''server'' @ [CHR ''>'']"
    by simp
  then show ?case by blast
next
  case (snoc x xs)
  have "''<server>'' @ concat (map (\<lambda>c. c # ''<server>'') (xs @ [x]))
          = CHR ''<'' # (''server>'' @ concat (map (\<lambda>c. c # ''<server>'') xs) @ x # ''<server'')
              @ [CHR ''>'']"
    by simp
  then show ?case by blast
qed

lemma py_strip_bracketed:
  "\<not> py_isspace a \<Longrightarrow> \<not> py_isspace b \<Longrightarrow> py_strip (a # mid @ [b]) = a # mid @ [b]"
  by (simp add: py_strip_def)

lemma intersperse_length:
  "length (''<server>'' @ concat (map (\<lambda>c. c # ''<server>'') e)) = 8 + 9 * length e"
  by (induction e) simp_all

lemma intersperse_differs:
  fixes err :: string
  defines "e \<equiv> (if py_strip err \<noteq> [] then py_strip err else ''Unknown error'')"
  shows "''<server>'' @ concat (map (\<lambda>c. c # ''<server>'') e) \<noteq> err"
proof
  let ?msg = "''<server>'' @ concat (map (\<lambda>c. c # ''<server>'') e)"
  assume eq: "?msg = err"
  obtain mid where m: "?msg = CHR ''<'' # mid @ [CHR ''>'']"
    using intersperse_shape by blast
  have "py_strip (CHR ''<'' # mid @ [CHR ''>'']) = CHR ''<'' # mid @ [CHR ''>'']"
    by (simp add: py_strip_bracketed py_isspace_def)
  then have "py_strip ?msg = ?msg" using m by simp
  with eq have s: "py_strip err = err" by simp
  have "err \<noteq> []" using eq m by auto
  with s have "e = err" by (simp add: e_def)
  with eq have "length ?msg = length e" by simp
  then show False by (simp only: intersperse_length)
qed


text \<open>
  C10, amended. When no server URL was parsed from the stored login command and the
  subprocess exits non-zero with a stdout that is empty once stripped, the message of the
  raised \<open>CommandExecutionError\<close> is the stripped stderr (\<open>Unknown error\<close> when that is
  empty) with the placeholder \<open><server>\<close> inserted before each character and after the
  last, the result of replacing the empty string; it is never the stderr text unchanged.
\<close>

theorem empty_url_redaction:
  assumes "resolve m ev cluster_name = Inr cname"
    and "map_of (config m) cname = Some login_cmd"
    and "parse_login (py_split login_cmd) = (None, connection_args)"
    and "\<not> (is_production cname \<and> cname \<notin> confirmed_production s)
         \<or> fst (confirm_action ev (production_prompt cname) False s) = Inr True"
    and "proc ev (runs s) = Exited code out err" and "code \<noteq> 0" and "py_strip out = []"
  shows "fst (execute_argocd_command m ev cluster_name argocd_args timeout quiet s)
           = Inl (CommandExecutionError
                    (''<server>'' @ concat (map (\<lambda>c. c # ''<server>'')
                        (if py_strip err \<noteq> [] then py_strip err else ''Unknown error''))))
       \<and> ''<server>'' @ concat (map (\<lambda>c. c # ''<server>'')
                        (if py_strip err \<noteq> [] then py_strip err else ''Unknown error''))
           \<noteq> err"
proof -
  have "fst (execute_argocd_command m ev cluster_name argocd_args timeout quiet s)
          = check_outcome timeout None (Exited code out err)"
    using assms(4,5)
    by (auto simp: execute_resolved [OF assms(1,2,3)] Let_def)
  then have "fst (execute_argocd_command m ev cluster_name argocd_args timeout quiet s)
           = Inl (CommandExecutionError
                    (''<server>'' @ concat (map (\<lambda>c. c # ''<server>'')
                        (if py_strip err \<noteq> [] then py_strip err else ''Unknown error''))))"
    using assms(6,7) by (simp add: check_outcome_nonzero py_replace_def)
  then show ?thesis using intersperse_differs [of err] by blast
qed

theorem empty_url_redaction_witness:
  "resolve (mgr [(''c1'', ''argocd --insecure'')]) (scripted [Exited 1 [] ''denied''] []) ''c1''
     = Inr ''c1''
   \<and> parse_login (py_split ''argocd --insecure'') = (None, [])
   \<and> \<not> is_production ''c1''
   \<and> proc (scripted [Exited 1 [] ''denied''] []) (runs fresh) = Exited 1 [] ''denied''
   \<and> fst (execute_argocd_command (mgr [(''c1'', ''argocd --insecure'')])
            (scripted [Exited 1 [] ''denied''] []) ''c1'' [''app'', ''list''] 30 False fresh)
       = Inl (CommandExecutionError
                ''<server>d<server>e<server>n<server>i<server>e<server>d<server>'')"
proof -
  let ?m = "mgr [(''c1'', ''argocd --insecure'')]"
  let ?ev = "scripted [Exited 1 [] ''denied''] []"
  have r: "resolve ?m ?ev ''c1'' = Inr ''c1''" by (simp add: run_eval)
  have l: "map_of (config ?m) ''c1'' = Some ''argocd --insecure''" by (simp add: mgr_def)
  have p: "parse_login (py_split ''argocd --insecure'') = (None, [])" by (simp add: str_eval)
  have np: "\<not> is_production ''c1''" by (simp add: is_production_def str_eval)
  then have g: "\<not> (is_production ''c1'' \<and> ''c1'' \<notin> confirmed_production fresh)
         \<or> fst (confirm_action ?ev (production_prompt ''c1'') False fresh) = Inr True"
    by simp
  have o: "proc ?ev (runs fresh) = Exited 1 [] ''denied''" by (simp add: scripted_def fresh_def)
  have c: "(1::int) \<noteq> 0" by simp
  have e: "py_strip [] = []" by (simp add: py_strip_def)
  have x: "py_strip ''denied'' = ''denied''" by (simp add: str_eval)
  from conjunct1 [OF empty_url_redaction [OF r l p g o c e, of "[''app'', ''list'']" 30 False]] x
  have "fst (execute_argocd_command ?m ?ev ''c1'' [''app'', ''list''] 30 False fresh)
       = Inl (CommandExecutionError
                ''<server>d<server>e<server>n<server>i<server>e<server>d<server>'')"
    by simp
  with r p np o show ?thesis by (intro conjI)
qed

text \<open>
  C10, as the claim states it, fails: the placeholder is inserted into the stripped
  stderr, not into stderr. With stderr \<open>x\<close> followed by a newline the message has no
  newline, while replacing the empty string in stderr itself would keep it.
\<close>

theorem unstripped_stderr_counterexample:
  "parse_login (py_split ''argocd --insecure'') = (None, [])
   \<and> proc (scripted [Exited 1 [] [CHR ''x'', CHR 0x0A]] []) (runs fresh)
       = Exited 1 [] [CHR ''x'', CHR 0x0A]
   \<and> fst (execute_argocd_command (mgr [(''c1'', ''argocd --insecure'')])
            (scripted [Exited 1 [] [CHR ''x'', CHR 0x0A]] []) ''c1'' [''app'', ''list'']
            30 False fresh)
       = Inl (CommandExecutionError ''<server>x<server>'')
   \<and> ''<server>x<server>'' \<noteq> py_replace [CHR ''x'', CHR 0x0A] [] ''<server>''"
  by (simp add: run_eval str_eval)

section \<open>A login command without the login token\<close>

lemma check_outcome_not_configuration:
  "check_outcome t url oc \<noteq> Inl (ConfigurationError e)"
  using check_outcome_error [of t url oc "ConfigurationError e"] by auto

text \<open>
  C9. For every stored login command whose whitespace-separated tokens do not contain
  the token \<open>login\<close>, the parser derives no server URL and no forwarded flags, the argv
  is the controller binary followed by the subcommand arguments and nothing else, the
  execution never fails with a configuration error, and the subprocess it starts is run
  with exactly that argv. (The one execution that starts no subprocess is the one the
  operator declines at the production prompt.)
\<close>

theorem no_login_token_argv:
  assumes "resolve m ev cluster_name = Inr cname"
    and "map_of (config m) cname = Some login_cmd"
    and "''login'' \<notin> set (py_split login_cmd)"
  shows "parse_login (py_split login_cmd) = (None, [])
       \<and> translate login_cmd argocd_args = ''argocd'' # argocd_args
       \<and> (\<forall>e. fst (execute_argocd_command m ev cluster_name argocd_args timeout quiet s)
                 \<noteq> Inl (ConfigurationError e))
       \<and> filter is_exec_run
            (trace (snd (execute_argocd_command m ev cluster_name argocd_args timeout quiet s)))
           = filter is_exec_run (trace s)
               @ (if is_production cname \<and> cname \<notin> confirmed_production s
                     \<and> fst (confirm_action ev (production_prompt cname) False s) \<noteq> Inr True
                  then [] else [ExecRun (''argocd'' # argocd_args) timeout])"
proof -
  have p: "parse_login (py_split login_cmd) = (None, [])"
    using assms(3) by (rule parse_login_none)
  have t: "translate login_cmd argocd_args = ''argocd'' # argocd_args"
    by (simp add: translate_def p build_cmd_def)
  note ex = execute_resolved [OF assms(1,2) p, of argocd_args timeout quiet s]
  have c: "\<forall>e. fst (execute_argocd_command m ev cluster_name argocd_args timeout quiet s)
                 \<noteq> Inl (ConfigurationError e)"
    unfolding ex
    by (auto simp: Let_def check_outcome_not_configuration split: sum.splits)
  have r: "filter is_exec_run
            (trace (snd (execute_argocd_command m ev cluster_name argocd_args timeout quiet s)))
           = filter is_exec_run (trace s)
               @ (if is_production cname \<and> cname \<notin> confirmed_production s
                     \<and> fst (confirm_action ev (production_prompt cname) False s) \<noteq> Inr True
                  then [] else [ExecRun (''argocd'' # argocd_args) timeout])"
    unfolding ex
    by (auto simp: Let_def build_cmd_def gate_prompt_def split: sum.splits)
  from p t c r show ?thesis by blast
qed

theorem no_login_token_argv_witness:
  "resolve (mgr [(''c1'', ''argocd --insecure --grpc-web'')]) (scripted [Exited 0 ''[]'' []] []) ''c1''
     = Inr ''c1''
   \<and> ''login'' \<notin> set (py_split ''argocd --insecure --grpc-web'')
   \<and> parse_login (py_split ''argocd --insecure --grpc-web'') = (None, [])
   \<and> \<not> is_production ''c1''
   \<and> filter is_exec_run
        (trace (snd (execute_argocd_command (mgr [(''c1'', ''argocd --insecure --grpc-web'')])
                       (scripted [Exited 0 ''[]'' []] []) ''c1'' [''app'', ''list''] 30 False fresh)))
       = [ExecRun [''argocd'', ''app'', ''list''] 30]"
proof -
  let ?m = "mgr [(''c1'', ''argocd --insecure --grpc-web'')]"
  let ?ev = "scripted [Exited 0 ''[]'' []] []"
  have r: "resolve ?m ?ev ''c1'' = Inr ''c1''" by (simp add: run_eval)
  have l: "map_of (config ?m) ''c1'' = Some ''argocd --insecure --grpc-web''"
    by (simp add: mgr_def)
  have n: "''login'' \<notin> set (py_split ''argocd --insecure --grpc-web'')"
    by (simp add: str_eval)
  have np: "\<not> is_production ''c1''" by (simp add: is_production_def str_eval)
  have tr: "trace fresh = []" by (simp add: fresh_def)
  note t = no_login_token_argv [OF r l n, of "[''app'', ''list'']" 30 False fresh]
  have p: "parse_login (py_split ''argocd --insecure --grpc-web'') = (None, [])"
    using conjunct1 [OF t] .
  have f: "filter is_exec_run
        (trace (snd (execute_argocd_command ?m ?ev ''c1'' [''app'', ''list''] 30 False fresh)))
       = [ExecRun [''argocd'', ''app'', ''list''] 30]"
    using conjunct2 [OF conjunct2 [OF conjunct2 [OF t]]] np tr by simp
  from r n p np f show ?thesis by (intro conjI)
qed

section \<open>The production gate\<close>

lemma lower_fold_in:
  "fold (\<lambda>k mp. mp(py_lower k \<mapsto> k)) keys m0 x = Some k \<Longrightarrow> k \<in> set keys \<or> m0 x = Some k"
  by (induction keys arbitrary: m0) (fastforce split: if_splits)+

lemma lower_map_in: "lower_map keys x = Some k \<Longrightarrow> k \<in> set keys"
  using lower_fold_in [of keys Map.empty x k] by (simp add: lower_map_def)

lemma fuzzy_fold_in:
  "fst (fold (fuzzy_step ev query th) cs acc) = Some c \<Longrightarrow> c \<in> set cs \<or> fst acc = Some c"
proof (induction cs arbitrary: acc)
  case Nil
  then show ?case by simp
next
  case (Cons x xs)
  from Cons.prems have "fst (fold (fuzzy_step ev query th) xs (fuzzy_step ev query th x acc)) = Some c"
    by simp
  from Cons.IH [OF this] show ?case
    by (auto simp: fuzzy_step_def Let_def split: prod.splits if_splits)
qed

lemma fuzzy_match_in: "fuzzy_match ev query cs th = Some c \<Longrightarrow> c \<in> set cs"
  using fuzzy_fold_in [of ev query th cs "(None, 0)" c]
  by (auto simp: fuzzy_match_def split: if_splits)

lemma resolve_in_config:
  "resolve m ev c = Inr cname \<Longrightarrow> cname \<in> set (map fst (config m))"
  by (auto simp: resolve_def validate_cluster_def Let_def split: if_splits option.splits
           dest: lower_map_in fuzzy_match_in)

lemma resolve_lookup:
  assumes "resolve m ev c = Inr cname"
  obtains login_cmd where "map_of (config m) cname = Some login_cmd"
proof -
  from resolve_in_config [OF assms] have "cname \<in> fst ` set (config m)" by simp
  then have "map_of (config m) cname \<noteq> None" by (simp add: map_of_eq_None_iff)
  then show ?thesis using that by blast
qed

lemma execute_confirmed_mono:
  "confirmed_production s
     \<subseteq> confirmed_production (snd (execute_argocd_command m ev c args t qu s))"
proof (cases "resolve m ev c")
  case (Inl e)
  then show ?thesis by (simp add: execute_unresolved)
next
  case (Inr cname)
  then obtain login_cmd where l: "map_of (config m) cname = Some login_cmd"
    by (rule resolve_lookup)
  obtain url conn where p: "parse_login (py_split login_cmd) = (url, conn)"
    by (cases "parse_login (py_split login_cmd)")
  show ?thesis
    unfolding execute_resolved [OF Inr l p]
    by (auto simp: Let_def split: sum.splits)
qed

lemma execute_no_prompt:
  assumes "resolve m ev c = Inr cname" and "cname \<in> confirmed_production s"
  shows "filter is_input (trace (snd (execute_argocd_command m ev c args t qu s)))
           = filter is_input (trace s)"
proof -
  obtain login_cmd where l: "map_of (config m) cname = Some login_cmd"
    using assms(1) by (rule resolve_lookup)
  obtain url conn where p: "parse_login (py_split login_cmd) = (url, conn)"
    by (cases "parse_login (py_split login_cmd)")
  show ?thesis
    unfolding execute_resolved [OF assms(1) l p]
    using assms(2) by (simp add: Let_def)
qed

section \<open>What a call adds to the trace\<close>

lemma extends_refl [simp]: "extends P s s"
  by (simp add: extends_def)

lemma extends_trans:
  "extends P s s1 \<Longrightarrow> extends P s1 s2 \<Longrightarrow> extends P s s2"
  by (fastforce simp: extends_def)

lemma extends_weaken:
  "extends P s s' \<Longrightarrow> (\<And>e. P e \<Longrightarrow> Q e) \<Longrightarrow> extends Q s s'"
  by (auto simp: extends_def list_all_iff)

lemma extends_emit: "P e \<Longrightarrow> extends P s (emit e s)"
  by (simp add: extends_def)

lemma extends_emit_after: "extends P s s1 \<Longrightarrow> P e \<Longrightarrow> extends P s (emit e s1)"
  by (auto simp: extends_def)

lemma extends_confirm:
  "extends P s s1 \<Longrightarrow>
   extends P s (s1\<lparr>confirmed_production := insert c (confirmed_production s1)\<rparr>)"
  by (auto simp: extends_def)

lemma extends_filter:
  "extends P s s' \<Longrightarrow> (\<And>e. P e \<Longrightarrow> \<not> Q e) \<Longrightarrow> filter Q (trace s') = filter Q (trace s)"
  by (auto simp: extends_def list_all_iff filter_empty_conv)


lemma extends_confirmed:
  "extends P s s' \<Longrightarrow> confirmed_production s \<subseteq> confirmed_production s'"
  by (auto simp: extends_def)

lemma warnings_exec_event:
  "list_all (exec_event c args t) (trace (snd (validate_cluster m ev c0 fresh)))"
  by (auto simp: list_all_iff exec_event_def dest!: warnings_prints)

lemma build_cmd_prefix: "prefix (''argocd'' # args) (build_cmd args url conn)"
  by (simp add: build_cmd_def)

lemma execute_extends:
  "extends (exec_event c args t) s (snd (execute_argocd_command m ev c args t qu s))"
proof (cases "resolve m ev c")
  case (Inl e)
  then show ?thesis
    by (simp add: execute_unresolved extends_def warnings_exec_event exec_event_def)
next
  case (Inr cname)
  then obtain login_cmd where l: "map_of (config m) cname = Some login_cmd"
    by (rule resolve_lookup)
  obtain url conn where p: "parse_login (py_split login_cmd) = (url, conn)"
    by (cases "parse_login (py_split login_cmd)")
  show ?thesis
    unfolding execute_resolved [OF Inr l p]
    by (auto simp: Let_def extends_def warnings_exec_event exec_event_def gate_prompt_def
          build_cmd_prefix split: sum.splits)
qed


lemma exec_login_event:
  "exec_event c [''proj'', ''list'', ''--output'', ''json''] 5 e \<Longrightarrow> login_event c e"
  by (cases e) (simp_all add: login_event_def exec_event_def)

lemma login_event_simps [simp]:
  "login_event c (Print p)" "login_event c (Sleep n)" "login_event c (LoginRun parts)"
  by (simp_all add: login_event_def exec_event_def)

lemma poll_extends:
  "extends (login_event c) s (snd (poll_session m ev c quiet atts s))"
proof (induction atts arbitrary: s)
  case Nil
  show ?case by (simp add: extends_emit)
next
  case (Cons a atts)
  let ?r = "execute_argocd_command m ev c [''proj'', ''list'', ''--output'', ''json''] 5 quiet s"
  have e: "extends (login_event c) s (snd ?r)"
    using execute_extends [of c _ 5 s m ev quiet] exec_login_event extends_weaken by blast
  obtain res s1 where r: "?r = (res, s1)" by (cases ?r)
  with e have e1: "extends (login_event c) s s1" by simp
  show ?case
  proof (cases res)
    case (Inr out)
    with r e1 show ?thesis
      by (auto simp: Let_def extends_def emit_def)
  next
    case (Inl err)
    show ?thesis
    proof (cases err)
      case (CommandExecutionError msg)
      show ?thesis
      proof (cases "still_unauthenticated msg")
        case True
        have "extends (login_event c) s (emit (Sleep 2) s1)"
          using e1 by (simp add: extends_emit_after)
        from extends_trans [OF this Cons.IH [of "emit (Sleep 2) s1"]]
        show ?thesis using r Inl CommandExecutionError True by simp
      next
        case False
        then show ?thesis using r Inl CommandExecutionError e1
          by (auto simp: extends_def emit_def)
      qed
    qed (use r Inl e1 in simp_all)
  qed
qed

lemma extends_update:
  "list_all P evs \<Longrightarrow> extends P s (s\<lparr>runs := r, trace := trace s @ evs\<rparr>)"
  "list_all P evs \<Longrightarrow> extends P s (s\<lparr>trace := trace s @ evs\<rparr>)"
  "list_all P evs \<Longrightarrow> extends P s (s\<lparr>trace := trace s @ evs, runs := r\<rparr>)"
  by (simp_all add: extends_def)

lemma login_extends:
  "extends (login_event c) s (snd (handle_oidc_login m ev c quiet s))"
proof -
  have step: "\<And>s0 qu. extends (login_event c) s s0 \<Longrightarrow>
       extends (login_event c) s (snd (poll_session m ev c qu [0..<15] s0))"
    using poll_extends extends_trans by blast
  show ?thesis
    unfolding handle_oidc_login_def
    by (auto simp: Let_def spawn_def emit_def extends_update
          split: option.splits proc_outcome.splits prod.splits
          intro!: step)
qed

section \<open>The guarded operations\<close>

lemma guard_event_simps [simp]: "guard_event c args t (Print p)"
  by (simp add: guard_event_def)

lemma execute_guard_extends:
  "extends (guard_event c args t) s (snd (execute_argocd_command m ev c args t qu s))"
  using execute_extends [of c args t s m ev qu] by (rule extends_weaken) (simp add: guard_event_def)

lemma login_guard_extends:
  "extends (guard_event c args t) s (snd (handle_oidc_login m ev c qu s))"
  using login_extends [of c s m ev qu] by (rule extends_weaken) (simp add: guard_event_def)

lemma exec_pair:
  "execute_argocd_command m ev c args t qu s = (res, s1) \<Longrightarrow> extends (guard_event c args t) s s1"
  using execute_guard_extends [of c args t s m ev qu] by simp

lemma login_pair:
  "handle_oidc_login m ev c qu s1 = (lr, s2) \<Longrightarrow> extends (guard_event c args t) s1 s2"
  using login_guard_extends [of c args t s1 m ev qu] by simp

lemma list_projects_loop_extends:
  "extends (guard_event c [''proj'', ''list'', ''--output'', ''json''] 30) s
     (snd (list_projects_loop m ev c atts s))"
proof (induction atts arbitrary: s)
  case Nil
  show ?case by simp
next
  case (Cons a atts)
  let ?P = "guard_event c [''proj'', ''list'', ''--output'', ''json''] 30"
  obtain res s1 where r: "execute_argocd_command m ev c [''proj'', ''list'', ''--output'', ''json'']
             30 False s = (res, s1)" by fastforce
  then have e1: "extends ?P s s1" by (rule exec_pair)
  obtain lr s2 where l: "handle_oidc_login m ev c False s1 = (lr, s2)" by fastforce
  then have "extends ?P s1 s2" by (rule login_pair)
  with e1 have e2: "extends ?P s s2" by (rule extends_trans)
  have e3: "extends ?P s (snd (list_projects_loop m ev c atts s2))"
    using e2 Cons.IH by (rule extends_trans)
  show ?case
    using r l e1 e2 e3
    by (auto simp: extends_emit_after split: sum.splits error.splits)
qed






lemma two_attempts: "[0..<2] = [0, 1]"
  by (simp add: upt_rec)








text \<open>Unfolding set for a concrete login-recovery cycle.\<close>

lemmas login_eval = handle_oidc_login_def still_unauthenticated_def auth_failure_def apos_def
  upt_rec



section \<open>Confirmation for production clusters\<close>

lemma confirm_default_decline:
  "stdin ev (reads s) = Some line \<Longrightarrow> py_strip line = [] \<Longrightarrow>
   fst (confirm_action ev p False s) = Inr False"
  by (simp add: confirm_action_def py_input_def py_lower_def)

text \<open>
  C6. For every execution against a cluster whose resolved name contains \<open>prod\<close>, case
  apart, and is not yet in the confirmation set: the operator is prompted before any
  subprocess is started, and an empty answer is a decline; on a decline (or at the end
  of the input) the call fails with a \<open>CommandExecutionError\<close>, starts no subprocess and
  leaves the confirmation set as it was; on an accept the resolved name is added to the
  confirmation set, and from then on no execution that resolves to that name prompts
  again, in any later session of the run; every Executor call and every login-recovery
  cycle leads to a later session, one in which the confirmation set has lost nothing.
\<close>

theorem production_gate:
  assumes "resolve m ev cluster_name = Inr cname" and "is_production cname"
    and "cname \<notin> confirmed_production s"
  shows "(\<exists>pre post.
            trace (snd (execute_argocd_command m ev cluster_name argocd_args timeout quiet s))
              = trace s @ pre @ gate_prompt cname # post
            \<and> filter is_exec_run pre = [])
       \<and> (\<forall>line. stdin ev (reads s) = Some line \<and> py_strip line = []
             \<longrightarrow> fst (confirm_action ev (production_prompt cname) False s) = Inr False)
       \<and> (fst (confirm_action ev (production_prompt cname) False s) \<noteq> Inr True
             \<longrightarrow> (\<exists>msg. fst (execute_argocd_command m ev cluster_name argocd_args timeout quiet s)
                          = Inl (CommandExecutionError msg))
                 \<and> filter is_exec_run
                      (trace (snd (execute_argocd_command m ev cluster_name argocd_args timeout
                                     quiet s)))
                     = filter is_exec_run (trace s)
                 \<and> confirmed_production
                      (snd (execute_argocd_command m ev cluster_name argocd_args timeout quiet s))
                     = confirmed_production s)
       \<and> (fst (confirm_action ev (production_prompt cname) False s) = Inr True
             \<longrightarrow> cname \<in> confirmed_production
                           (snd (execute_argocd_command m ev cluster_name argocd_args timeout
                                   quiet s))
                 \<and> (\<forall>s2 c2 args2 t2 q2.
                        extends (\<lambda>e. True)
                          (snd (execute_argocd_command m ev cluster_name argocd_args timeout
                                  quiet s)) s2
                        \<and> resolve m ev c2 = Inr cname
                        \<longrightarrow> filter is_input
                              (trace (snd (execute_argocd_command m ev c2 args2 t2 q2 s2)))
                            = filter is_input (trace s2)))
       \<and> (\<forall>s2 c2 args2 t2 q2.
             extends (\<lambda>e. True) s2 (snd (execute_argocd_command m ev c2 args2 t2 q2 s2))
             \<and> extends (\<lambda>e. True) s2 (snd (handle_oidc_login m ev c2 q2 s2)))"
proof -
  obtain login_cmd where l: "map_of (config m) cname = Some login_cmd"
    using assms(1) by (rule resolve_lookup)
  obtain url conn where p: "parse_login (py_split login_cmd) = (url, conn)"
    by (cases "parse_login (py_split login_cmd)")
  note ex = execute_resolved [OF assms(1) l p, of argocd_args timeout quiet s]
  let ?s' = "snd (execute_argocd_command m ev cluster_name argocd_args timeout quiet s)"
  have prompted: "\<exists>pre post. trace ?s' = trace s @ pre @ gate_prompt cname # post
            \<and> filter is_exec_run pre = []"
  proof -
    let ?pre = "Call cluster_name argocd_args timeout
                  # trace (snd (validate_cluster m ev cluster_name fresh))"
    have "\<exists>post. trace ?s' = trace s @ ?pre @ gate_prompt cname # post"
      unfolding ex using assms(2,3) by (auto simp: Let_def split: sum.splits)
    moreover have "filter is_exec_run ?pre = []" by simp
    ultimately show ?thesis by blast
  qed
  have dflt: "\<forall>line. stdin ev (reads s) = Some line \<and> py_strip line = []
             \<longrightarrow> fst (confirm_action ev (production_prompt cname) False s) = Inr False"
    using confirm_default_decline by blast
  have decl: "fst (confirm_action ev (production_prompt cname) False s) \<noteq> Inr True
             \<longrightarrow> (\<exists>msg. fst (execute_argocd_command m ev cluster_name argocd_args timeout quiet s)
                          = Inl (CommandExecutionError msg))
                 \<and> filter is_exec_run (trace ?s') = filter is_exec_run (trace s)
                 \<and> confirmed_production ?s' = confirmed_production s"
    unfolding ex using assms(2,3)
    by (auto simp: Let_def gate_prompt_def split: sum.splits)
  have acc: "fst (confirm_action ev (production_prompt cname) False s) = Inr True
             \<longrightarrow> cname \<in> confirmed_production ?s'"
    unfolding ex using assms(2,3) by (auto simp: Let_def split: sum.splits)
  have later: "fst (confirm_action ev (production_prompt cname) False s) = Inr True
             \<longrightarrow> (\<forall>s2 c2 args2 t2 q2.
                        extends (\<lambda>e. True) ?s' s2 \<and> resolve m ev c2 = Inr cname
                        \<longrightarrow> filter is_input
                              (trace (snd (execute_argocd_command m ev c2 args2 t2 q2 s2)))
                            = filter is_input (trace s2))"
  proof (intro impI allI)
    fix s2 c2 args2 t2 q2
    assume a: "fst (confirm_action ev (production_prompt cname) False s) = Inr True"
      and b: "extends (\<lambda>e. True) ?s' s2 \<and> resolve m ev c2 = Inr cname"
    from a acc have "cname \<in> confirmed_production ?s'" by blast
    moreover from b have "confirmed_production ?s' \<subseteq> confirmed_production s2"
      using extends_confirmed by blast
    ultimately have "cname \<in> confirmed_production s2" by blast
    with b show "filter is_input (trace (snd (execute_argocd_command m ev c2 args2 t2 q2 s2)))
                   = filter is_input (trace s2)"
      using execute_no_prompt by blast
  qed
  have mono: "\<forall>s2 c2 args2 t2 q2.
             extends (\<lambda>e. True) s2 (snd (execute_argocd_command m ev c2 args2 t2 q2 s2))
             \<and> extends (\<lambda>e. True) s2 (snd (handle_oidc_login m ev c2 q2 s2))"
  proof (intro allI conjI)
    fix s2 c2 args2 t2 q2
    show "extends (\<lambda>e. True) s2 (snd (execute_argocd_command m ev c2 args2 t2 q2 s2))"
      using execute_extends [of c2 args2 t2 s2 m ev q2] by (rule extends_weaken) simp
    show "extends (\<lambda>e. True) s2 (snd (handle_oidc_login m ev c2 q2 s2))"
      using login_extends [of c2 s2 m ev q2] by (rule extends_weaken) simp
  qed
  from prompted dflt decl acc later mono show ?thesis by blast
qed


theorem production_gate_witness:
  "resolve (mgr [(''Prod-East'', ''argocd login prod.example.com --grpc-web'')])
     (scripted [Exited 0 ''[]'' []] [''n'']) ''Prod-East'' = Inr ''Prod-East''
   \<and> is_production ''Prod-East''
   \<and> ''Prod-East'' \<notin> confirmed_production fresh
   \<and> fst (confirm_action (scripted [Exited 0 ''[]'' []] [''n''])
            (production_prompt ''Prod-East'') False fresh) = Inr False
   \<and> filter is_exec_run
        (trace (snd (execute_argocd_command
                       (mgr [(''Prod-East'', ''argocd login prod.example.com --grpc-web'')])
                       (scripted [Exited 0 ''[]'' []] [''n'']) ''Prod-East''
                       [''app'', ''list''] 30 False fresh))) = []
   \<and> confirmed_production
        (snd (execute_argocd_command
                (mgr [(''Prod-East'', ''argocd login prod.example.com --grpc-web'')])
                (scripted [Exited 0 ''[]'' []] [''n'']) ''Prod-East''
                [''app'', ''list''] 30 False fresh)) = {}"
proof -
  let ?m = "mgr [(''Prod-East'', ''argocd login prod.example.com --grpc-web'')]"
  let ?ev = "scripted [Exited 0 ''[]'' []] [''n'']"
  have r: "resolve ?m ?ev ''Prod-East'' = Inr ''Prod-East''" by (simp add: run_eval)
  have p: "is_production ''Prod-East''" by (simp add: is_production_def str_eval)
  have n: "''Prod-East'' \<notin> confirmed_production fresh" by (simp add: fresh_def)
  have d: "fst (confirm_action ?ev (production_prompt ''Prod-East'') False fresh) = Inr False"
    by (simp add: confirm_action_def py_input_def scripted_def fresh_def str_eval)
  then have d': "fst (confirm_action ?ev (production_prompt ''Prod-East'') False fresh) \<noteq> Inr True"
    by simp
  note g = production_gate [OF r p n, of "[''app'', ''list'']" 30 False]
  from g d' have
    "filter is_exec_run
        (trace (snd (execute_argocd_command ?m ?ev ''Prod-East'' [''app'', ''list''] 30 False fresh)))
       = filter is_exec_run (trace fresh)
     \<and> confirmed_production
        (snd (execute_argocd_command ?m ?ev ''Prod-East'' [''app'', ''list''] 30 False fresh))
       = confirmed_production fresh"
    by blast
  then have
    "filter is_exec_run
        (trace (snd (execute_argocd_command ?m ?ev ''Prod-East'' [''app'', ''list''] 30 False fresh)))
       = []
     \<and> confirmed_production
        (snd (execute_argocd_command ?m ?ev ''Prod-East'' [''app'', ''list''] 30 False fresh))
       = {}"
    by (simp add: fresh_def)
  with r p n d show ?thesis by (intro conjI) simp_all
qed

section \<open>Name resolution\<close>

lemma lower_map_snoc:
  "lower_map (keys @ [k]) x = (if py_lower k = x then Some k else lower_map keys x)"
  by (simp add: lower_map_def)

lemma lower_map_Nil: "lower_map [] x = None"
  by (simp add: lower_map_def)

lemma lower_map_some:
  "lower_map keys x = Some k \<Longrightarrow>
     py_lower k = x \<and> (\<exists>pre post. keys = pre @ k # post \<and> (\<forall>k' \<in> set post. py_lower k' \<noteq> x))"
proof (induction keys rule: rev_induct)
  case Nil
  then show ?case by (simp add: lower_map_Nil)
next
  case (snoc a keys)
  show ?case
  proof (cases "py_lower a = x")
    case True
    with snoc.prems have "k = a" by (simp add: lower_map_snoc)
    with True have "py_lower k = x \<and> keys @ [a] = keys @ k # [] \<and> (\<forall>k' \<in> set []. py_lower k' \<noteq> x)"
      by simp
    then show ?thesis by blast
  next
    case False
    with snoc.prems have "lower_map keys x = Some k" by (simp add: lower_map_snoc)
    from snoc.IH [OF this] obtain pre post where
      h: "py_lower k = x" "keys = pre @ k # post" "\<forall>k' \<in> set post. py_lower k' \<noteq> x" by blast
    then have "keys @ [a] = pre @ k # (post @ [a]) \<and> (\<forall>k' \<in> set (post @ [a]). py_lower k' \<noteq> x)"
      using False by simp
    with h(1) show ?thesis by blast
  qed
qed

lemma lower_map_none:
  "lower_map keys x = None \<longleftrightarrow> (\<forall>k \<in> set keys. py_lower k \<noteq> x)"
  by (induction keys rule: rev_induct) (auto simp: lower_map_Nil lower_map_snoc)

lemma lower_map_unique:
  assumes "n \<in> set keys" and "\<forall>k \<in> set keys. py_lower k = py_lower n \<longrightarrow> k = n"
  shows "lower_map keys (py_lower n) = Some n"
proof (cases "lower_map keys (py_lower n)")
  case None
  with assms(1) show ?thesis by (auto simp: lower_map_none)
next
  case (Some k)
  from lower_map_some [OF Some] have "k \<in> set keys \<and> py_lower k = py_lower n" by auto
  with assms(2) Some show ?thesis by blast
qed

lemma float_0_6_pos: "0 < float_0_6"
  by (simp add: float_0_6_def)

lemma float_0_6_below: "float_0_6 < 6 / 10"
  by (simp add: float_0_6_def)

lemma fuzzy_step_cases:
  "fuzzy_step ev query th a (b, br)
     = (if br < ratio ev (py_lower query) (py_lower a) \<and> th \<le> ratio ev (py_lower query) (py_lower a)
        then (Some a, ratio ev (py_lower query) (py_lower a)) else (b, br))"
  by (simp add: fuzzy_step_def Let_def)

lemma fuzzy_fold_none:
  "fst (fold (fuzzy_step ev query th) cs (b, br)) = None
     \<longleftrightarrow> b = None \<and> (\<forall>x \<in> set cs. \<not> (br < ratio ev (py_lower query) (py_lower x)
                                         \<and> th \<le> ratio ev (py_lower query) (py_lower x)))"
proof (induction cs arbitrary: b br)
  case Nil
  show ?case by simp
next
  case (Cons a cs)
  show ?case
    by (simp add: fuzzy_step_cases Cons.IH)
qed

lemma fuzzy_fold_best:
  assumes "fst (fold (fuzzy_step ev query th) cs (b, br)) = Some c"
  shows "(b = Some c \<and> (\<forall>x \<in> set cs. ratio ev (py_lower query) (py_lower x) \<le> br
                                       \<or> ratio ev (py_lower query) (py_lower x) < th))
       \<or> (\<exists>pre post. cs = pre @ c # post
           \<and> th \<le> ratio ev (py_lower query) (py_lower c)
           \<and> br < ratio ev (py_lower query) (py_lower c)
           \<and> (\<forall>x \<in> set pre. ratio ev (py_lower query) (py_lower x)
                                < ratio ev (py_lower query) (py_lower c))
           \<and> (\<forall>x \<in> set post. ratio ev (py_lower query) (py_lower x)
                                \<le> ratio ev (py_lower query) (py_lower c)))"
  using assms
proof (induction cs arbitrary: b br)
  case Nil
  then show ?case by simp
next
  case (Cons a cs)
  let ?r = "\<lambda>x. ratio ev (py_lower query) (py_lower x)"
  show ?case
  proof (cases "br < ?r a \<and> th \<le> ?r a")
    case True
    with Cons.prems have f: "fst (fold (fuzzy_step ev query th) cs (Some a, ?r a)) = Some c"
      by (simp add: fuzzy_step_cases)
    from Cons.IH [OF f] show ?thesis
    proof
      assume h: "Some a = Some c \<and> (\<forall>x \<in> set cs. ?r x \<le> ?r a \<or> ?r x < th)"
      then have "a # cs = [] @ c # cs \<and> th \<le> ?r c \<and> br < ?r c
                 \<and> (\<forall>x \<in> set []. ?r x < ?r c) \<and> (\<forall>x \<in> set cs. ?r x \<le> ?r c)"
        using True by fastforce
      then show ?thesis by blast
    next
      assume "\<exists>pre post. cs = pre @ c # post \<and> th \<le> ?r c \<and> ?r a < ?r c
           \<and> (\<forall>x \<in> set pre. ?r x < ?r c) \<and> (\<forall>x \<in> set post. ?r x \<le> ?r c)"
      then obtain pre post where h: "cs = pre @ c # post" "th \<le> ?r c" "?r a < ?r c"
           "\<forall>x \<in> set pre. ?r x < ?r c" "\<forall>x \<in> set post. ?r x \<le> ?r c" by blast
      then have "a # cs = (a # pre) @ c # post \<and> th \<le> ?r c \<and> br < ?r c
                 \<and> (\<forall>x \<in> set (a # pre). ?r x < ?r c) \<and> (\<forall>x \<in> set post. ?r x \<le> ?r c)"
        using True by auto
      then show ?thesis by blast
    qed
  next
    case False
    with Cons.prems have f: "fst (fold (fuzzy_step ev query th) cs (b, br)) = Some c"
      by (simp add: fuzzy_step_cases)
    from Cons.IH [OF f] show ?thesis
    proof
      assume "b = Some c \<and> (\<forall>x \<in> set cs. ?r x \<le> br \<or> ?r x < th)"
      then show ?thesis using False by auto
    next
      assume "\<exists>pre post. cs = pre @ c # post \<and> th \<le> ?r c \<and> br < ?r c
           \<and> (\<forall>x \<in> set pre. ?r x < ?r c) \<and> (\<forall>x \<in> set post. ?r x \<le> ?r c)"
      then obtain pre post where h: "cs = pre @ c # post" "th \<le> ?r c" "br < ?r c"
           "\<forall>x \<in> set pre. ?r x < ?r c" "\<forall>x \<in> set post. ?r x \<le> ?r c" by blast
      then have "a # cs = (a # pre) @ c # post \<and> th \<le> ?r c \<and> br < ?r c
                 \<and> (\<forall>x \<in> set (a # pre). ?r x < ?r c) \<and> (\<forall>x \<in> set post. ?r x \<le> ?r c)"
        using False by auto
      then show ?thesis by blast
    qed
  qed
qed


text \<open>
  C7, amended. Name resolution tries, in order and with the first match winning: the
  exact name; then a case-insensitive exact match, which returns the last configured name
  whose lowercase form is that of the query; then the fuzzy match, which returns the
  first configured name of greatest similarity ratio to the query (both lowercased) when
  that ratio is at least the float 0.6. Consequently, for every configured name \<open>N\<close> that
  is the only configured name with its lowercase form, every case variant of \<open>N\<close> resolves
  to \<open>N\<close>, ahead of any fuzzy match; and a query with no exact and no case-insensitive
  match fails with the not-found \<open>ConfigurationError\<close> when no configured name reaches
  the float 0.6.
\<close>

theorem name_resolution:
  fixes m :: manager and ev :: env and query :: string
  defines "keys \<equiv> map fst (config m)"
    and "r \<equiv> (\<lambda>k. ratio ev (py_lower query) (py_lower k))"
  shows "(query \<in> set keys \<longrightarrow> resolve m ev query = Inr query)
       \<and> (query \<notin> set keys \<and> (\<exists>k \<in> set keys. py_lower k = py_lower query)
            \<longrightarrow> (\<exists>k pre post. resolve m ev query = Inr k \<and> py_lower k = py_lower query
                    \<and> keys = pre @ k # post
                    \<and> (\<forall>k' \<in> set post. py_lower k' \<noteq> py_lower query)))
       \<and> (\<forall>n \<in> set keys.
             py_lower query = py_lower n \<and> (\<forall>k \<in> set keys. py_lower k = py_lower n \<longrightarrow> k = n)
             \<longrightarrow> resolve m ev query = Inr n)
       \<and> (query \<notin> set keys \<and> (\<forall>k \<in> set keys. py_lower k \<noteq> py_lower query)
            \<longrightarrow> (\<forall>c. resolve m ev query = Inr c
                       \<longrightarrow> (\<exists>pre post. keys = pre @ c # post \<and> float_0_6 \<le> r c
                              \<and> (\<forall>x \<in> set pre. r x < r c) \<and> (\<forall>x \<in> set post. r x \<le> r c)))
                \<and> ((\<exists>c \<in> set keys. float_0_6 \<le> r c) \<and> [] \<notin> set keys
                       \<longrightarrow> (\<exists>c. resolve m ev query = Inr c))
                \<and> ((\<forall>c \<in> set keys. r c < float_0_6)
                       \<longrightarrow> resolve m ev query
                             = Inl (ConfigurationError
                                      (''Cluster '' @ [CHR 0x27] @ query @ [CHR 0x27]
                                         @ '' not found''))))"
proof -
  have exact: "query \<in> set keys \<longrightarrow> resolve m ev query = Inr query"
    by (simp add: resolve_def validate_cluster_def keys_def)
  have ci: "query \<notin> set keys \<and> (\<exists>k \<in> set keys. py_lower k = py_lower query)
            \<longrightarrow> (\<exists>k pre post. resolve m ev query = Inr k \<and> py_lower k = py_lower query
                    \<and> keys = pre @ k # post
                    \<and> (\<forall>k' \<in> set post. py_lower k' \<noteq> py_lower query))"
  proof
    assume h: "query \<notin> set keys \<and> (\<exists>k \<in> set keys. py_lower k = py_lower query)"
    then have "lower_map keys (py_lower query) \<noteq> None" by (auto simp: lower_map_none)
    then obtain k where k: "lower_map keys (py_lower query) = Some k" by blast
    from h k have "resolve m ev query = Inr k"
      by (simp add: resolve_def validate_cluster_def keys_def)
    with lower_map_some [OF k] show "\<exists>k pre post. resolve m ev query = Inr k
        \<and> py_lower k = py_lower query \<and> keys = pre @ k # post
        \<and> (\<forall>k' \<in> set post. py_lower k' \<noteq> py_lower query)"
      by blast
  qed
  have uniq: "\<forall>n \<in> set keys.
             py_lower query = py_lower n \<and> (\<forall>k \<in> set keys. py_lower k = py_lower n \<longrightarrow> k = n)
             \<longrightarrow> resolve m ev query = Inr n"
  proof (intro ballI impI)
    fix n
    assume n: "n \<in> set keys"
      and h: "py_lower query = py_lower n \<and> (\<forall>k \<in> set keys. py_lower k = py_lower n \<longrightarrow> k = n)"
    show "resolve m ev query = Inr n"
    proof (cases "query \<in> set keys")
      case True
      with h have "query = n" by blast
      with exact True show ?thesis by simp
    next
      case False
      have "lower_map keys (py_lower query) = Some n"
        using lower_map_unique [OF n] h by simp
      with False show ?thesis
        by (simp add: resolve_def validate_cluster_def keys_def)
    qed
  qed
  have fz: "query \<notin> set keys \<and> (\<forall>k \<in> set keys. py_lower k \<noteq> py_lower query)
            \<longrightarrow> (\<forall>c. resolve m ev query = Inr c
                       \<longrightarrow> (\<exists>pre post. keys = pre @ c # post \<and> float_0_6 \<le> r c
                              \<and> (\<forall>x \<in> set pre. r x < r c) \<and> (\<forall>x \<in> set post. r x \<le> r c)))
                \<and> ((\<exists>c \<in> set keys. float_0_6 \<le> r c) \<and> [] \<notin> set keys
                       \<longrightarrow> (\<exists>c. resolve m ev query = Inr c))
                \<and> ((\<forall>c \<in> set keys. r c < float_0_6)
                       \<longrightarrow> resolve m ev query
                             = Inl (ConfigurationError
                                      (''Cluster '' @ [CHR 0x27] @ query @ [CHR 0x27]
                                         @ '' not found'')))"
  proof
    assume h: "query \<notin> set keys \<and> (\<forall>k \<in> set keys. py_lower k \<noteq> py_lower query)"
    then have lm: "lower_map keys (py_lower query) = None" by (simp add: lower_map_none)
    let ?f = "fst (fold (fuzzy_step ev query float_0_6) keys (None, 0))"
    have fm: "fuzzy_match ev query keys float_0_6 = ?f" using h by (simp add: fuzzy_match_def)
    have res: "resolve m ev query
                 = (case ?f of
                      Some c \<Rightarrow> if c \<noteq> [] then Inr c
                                else Inl (ConfigurationError (''Cluster '' @ [CHR 0x27] @ query
                                            @ [CHR 0x27] @ '' not found''))
                    | None \<Rightarrow> Inl (ConfigurationError (''Cluster '' @ [CHR 0x27] @ query
                                            @ [CHR 0x27] @ '' not found'')))"
      using h lm fm
      by (simp add: resolve_def validate_cluster_def keys_def [symmetric] split: option.splits)
    have a: "\<forall>c. resolve m ev query = Inr c
                       \<longrightarrow> (\<exists>pre post. keys = pre @ c # post \<and> float_0_6 \<le> r c
                              \<and> (\<forall>x \<in> set pre. r x < r c) \<and> (\<forall>x \<in> set post. r x \<le> r c))"
    proof (intro allI impI)
      fix c assume "resolve m ev query = Inr c"
      then have "?f = Some c" unfolding res by (auto split: option.splits if_splits)
      from fuzzy_fold_best [OF this]
      show "\<exists>pre post. keys = pre @ c # post \<and> float_0_6 \<le> r c
                              \<and> (\<forall>x \<in> set pre. r x < r c) \<and> (\<forall>x \<in> set post. r x \<le> r c)"
        unfolding r_def by blast
    qed
    have b: "(\<exists>c \<in> set keys. float_0_6 \<le> r c) \<and> [] \<notin> set keys \<longrightarrow> (\<exists>c. resolve m ev query = Inr c)"
    proof
      assume g: "(\<exists>c \<in> set keys. float_0_6 \<le> r c) \<and> [] \<notin> set keys"
      then obtain c0 where "c0 \<in> set keys" "float_0_6 \<le> r c0" by blast
      then have "\<not> (\<forall>x \<in> set keys. \<not> (0 < r x \<and> float_0_6 \<le> r x))"
        using float_0_6_pos less_le_trans by blast
      then have "?f \<noteq> None" using fuzzy_fold_none [of ev query float_0_6 keys None 0]
        unfolding r_def by blast
      then obtain c where c: "?f = Some c" by blast
      then have "c \<in> set keys" using fuzzy_fold_in [of ev query float_0_6 keys "(None, 0)" c] by simp
      with g have "c \<noteq> []" by blast
      with c show "\<exists>c. resolve m ev query = Inr c" unfolding res by simp
    qed
    have c: "(\<forall>c \<in> set keys. r c < float_0_6)
                       \<longrightarrow> resolve m ev query
                             = Inl (ConfigurationError
                                      (''Cluster '' @ [CHR 0x27] @ query @ [CHR 0x27]
                                         @ '' not found''))"
    proof
      assume "\<forall>c \<in> set keys. r c < float_0_6"
      then have "\<forall>x \<in> set keys. \<not> (0 < r x \<and> float_0_6 \<le> r x)" by fastforce
      then have "?f = None" using fuzzy_fold_none [of ev query float_0_6 keys None 0]
        unfolding r_def by blast
      then show "resolve m ev query
                             = Inl (ConfigurationError
                                      (''Cluster '' @ [CHR 0x27] @ query @ [CHR 0x27]
                                         @ '' not found''))"
        unfolding res by simp
    qed
    from a b c show "(\<forall>c. resolve m ev query = Inr c
                       \<longrightarrow> (\<exists>pre post. keys = pre @ c # post \<and> float_0_6 \<le> r c
                              \<and> (\<forall>x \<in> set pre. r x < r c) \<and> (\<forall>x \<in> set post. r x \<le> r c)))
                \<and> ((\<exists>c \<in> set keys. float_0_6 \<le> r c) \<and> [] \<notin> set keys
                       \<longrightarrow> (\<exists>c. resolve m ev query = Inr c))
                \<and> ((\<forall>c \<in> set keys. r c < float_0_6)
                       \<longrightarrow> resolve m ev query
                             = Inl (ConfigurationError
                                      (''Cluster '' @ [CHR 0x27] @ query @ [CHR 0x27]
                                         @ '' not found'')))"
      by blast
  qed
  from exact ci uniq fz show ?thesis by blast
qed


theorem name_resolution_witness:
  "''paywell-prod'' \<in> set (map fst (config (mgr [(''paywell-prod'', ''argocd login a.example.com''),
                                                 (''paywell-acc'', ''argocd login b.example.com'')])))
   \<and> py_lower ''PayWell-PROD'' = py_lower ''paywell-prod''
   \<and> resolve (mgr [(''paywell-prod'', ''argocd login a.example.com''),
                   (''paywell-acc'', ''argocd login b.example.com'')])
        (scripted [] []) ''PayWell-PROD'' = Inr ''paywell-prod''"
proof -
  let ?m = "mgr [(''paywell-prod'', ''argocd login a.example.com''),
                 (''paywell-acc'', ''argocd login b.example.com'')]"
  have k: "map fst (config ?m) = [''paywell-prod'', ''paywell-acc'']" by (simp add: mgr_def)
  have a: "''paywell-prod'' \<in> set (map fst (config ?m))" by (simp add: mgr_def)
  have b: "py_lower ''PayWell-PROD'' = py_lower ''paywell-prod''" by (simp add: str_eval)
  have u: "\<forall>k \<in> set (map fst (config ?m)). py_lower k = py_lower ''paywell-prod''
              \<longrightarrow> k = ''paywell-prod''"
    unfolding k by (simp add: str_eval)
  note t = name_resolution [of "''PayWell-PROD''" ?m "scripted [] []"]
  from conjunct1 [OF conjunct2 [OF conjunct2 [OF t]]] a b u
  have "resolve ?m (scripted [] []) ''PayWell-PROD'' = Inr ''paywell-prod''" by blast
  with a b show ?thesis by (intro conjI)
qed

text \<open>
  A candidate whose ratio is exactly the float 0.6 (difflib's ratio of \<open>abc\<close> and \<open>abcdefg\<close>,
  6/10 rounded to a double) is accepted.
\<close>

lemma fuzzy_boundary_accepted:
  "resolve (mgr [(''abcdefg'', ''argocd login a.example.com'')])
     ((scripted [] [])\<lparr>ratio := (\<lambda>a b. float_0_6)\<rparr>) ''abc'' = Inr ''abcdefg''"
  by (simp add: run_eval str_eval lower_map_def fuzzy_match_def fuzzy_step_def float_0_6_def)

text \<open>
  C7, as the claim states it, fails: with the configured names \<open>Prod\<close> and \<open>prod\<close>, the
  case variant \<open>PROD\<close> of the configured name \<open>Prod\<close> resolves to \<open>prod\<close>.
\<close>

theorem case_collision_counterexample:
  "''Prod'' \<in> set (map fst (config (mgr [(''Prod'', ''argocd login a.example.com''),
                                         (''prod'', ''argocd login b.example.com'')])))
   \<and> py_lower ''PROD'' = py_lower ''Prod''
   \<and> resolve (mgr [(''Prod'', ''argocd login a.example.com''),
                   (''prod'', ''argocd login b.example.com'')])
        (scripted [] []) ''PROD'' = Inr ''prod''
   \<and> resolve (mgr [(''Prod'', ''argocd login a.example.com''),
                   (''prod'', ''argocd login b.example.com'')])
        (scripted [] []) ''PROD'' \<noteq> Inr ''Prod''"
  by (simp add: run_eval str_eval lower_map_def)

section \<open>The poll loop of the login-recovery cycle\<close>

text \<open>
  C2 does not hold of the code. The poll loop keeps polling on a narrower test than the
  one that classifies authentication failures for the guarded operations: it looks for
  \<open>Unauthenticated\<close> and \<open>invalid session\<close> only, with the case as written. A poll that fails
  with an OAuth2 \<open>invalid_grant\<close> message, an authentication failure for the guarded
  operations, ends the cycle at once: one poll, no delay, and the result \<open>False\<close>, although
  the next poll would have succeeded.
\<close>

theorem poll_stops_on_oauth2_failure:
  "auth_failure (py_lower ''oauth2: cannot fetch token: invalid_grant'')
   \<and> \<not> still_unauthenticated ''oauth2: cannot fetch token: invalid_grant''
   \<and> fst (handle_oidc_login (mgr [(''c1'', ''argocd login svc.example.com --sso'')])
            (scripted [Exited 0 [] [],
                       Exited 1 [] ''oauth2: cannot fetch token: invalid_grant'',
                       Exited 0 ''[]'' []] [])
            ''c1'' False fresh) = Inr False
   \<and> filter (\<lambda>e. is_call e \<or> e = Sleep 2)
        (trace (snd (handle_oidc_login (mgr [(''c1'', ''argocd login svc.example.com --sso'')])
            (scripted [Exited 0 [] [],
                       Exited 1 [] ''oauth2: cannot fetch token: invalid_grant'',
                       Exited 0 ''[]'' []] [])
            ''c1'' False fresh)))
       = [Call ''c1'' [''proj'', ''list'', ''--output'', ''json''] 5]
   \<and> last (trace (snd (handle_oidc_login (mgr [(''c1'', ''argocd login svc.example.com --sso'')])
            (scripted [Exited 0 [] [],
                       Exited 1 [] ''oauth2: cannot fetch token: invalid_grant'',
                       Exited 0 ''[]'' []] [])
            ''c1'' False fresh)))
       = Print ''Login ran but verification failed: oauth2: cannot fetch token: invalid_grant''"
  by (simp add: run_eval str_eval login_eval)

section \<open>The patch fallback\<close>

text \<open>With the fallback disabled, a failed primary command ends the operation: two
  messages and the result \<open>False\<close>.\<close>

lemma fallback_disabled_stops:
  assumes "\<not> allow_patch m"
    and "execute_argocd_command m ev cname (set_cmd app_name revision repo resolved_index) 30 False s
           = (Inl (CommandExecutionError e), s1)"
  shows "apply_revision m ev cname app_name revision repo resolved_index False app_status s
           = (Inr False,
              emit (Print (''kubectl patch fallback is disabled. ''
                      @ ''To enable, run with --allow-patch.''))
                (emit (Print (''argocd app set failed: '' @ e @ ''.'')) s1))"
  using assms by (simp add: apply_revision_def Let_def)

text \<open>Unfolding sets for a concrete run of the mutator.\<close>

lemmas json_eval = truthy.simps dict_get.simps key_in.simps subscript.simps is_list_def
  is_dict_def member_of_type_def app_sources_def get_or_def source_repourl_def or_default_def
  fmt_def

lemmas mutator_eval = set_application_target_revision_def fetch_sources_def
  get_application_status_def get_application_status'_def loads_or_none_def
  resolve_index_def str_truthy_def apply_revision_def set_cmd_def kubectl_patch_def
  patch_cmd_def patch_str_def dq_def auth_failure_def

text \<open>
  C5 does not hold of the code. When the primary command has failed, the fallback is
  enabled and the first \<open>kubectl\<close> attempt fails, the retry does not change the resource
  name: \<open>patch_cmd[3] = 'applications'\<close> overwrites the verb \<open>patch\<close> at index 3, and the
  resource name \<open>applications.argoproj.io\<close> at index 4 stays. The second subprocess is
  \<open>kubectl -n argocd applications applications.argoproj.io web ...\<close>.
\<close>

theorem patch_retry_overwrites_verb:
  "fst (the (set_application_target_revision
        ((mgr [(''c1'', ''argocd login svc.example.com --grpc-web'')])\<lparr>allow_patch := True\<rparr>)
        ((scripted [Exited 0 ''{}'' [], Exited 1 [] ''denied'', Exited 1 [] ''not found'',
                    Exited 0 ''patched'' []] [])
           \<lparr>json_loads := (\<lambda>t. Some (JObj [(''metadata'', JObj [(''namespace'', JStr ''argocd'')])]))\<rparr>)
        ''c1'' ''web'' ''v2'' None None False fresh)) = Inr True
   \<and> filter is_patch_run
     (trace (snd (the (set_application_target_revision
        ((mgr [(''c1'', ''argocd login svc.example.com --grpc-web'')])\<lparr>allow_patch := True\<rparr>)
        ((scripted [Exited 0 ''{}'' [], Exited 1 [] ''denied'', Exited 1 [] ''not found'',
                    Exited 0 ''patched'' []] [])
           \<lparr>json_loads := (\<lambda>t. Some (JObj [(''metadata'', JObj [(''namespace'', JStr ''argocd'')])]))\<rparr>)
        ''c1'' ''web'' ''v2'' None None False fresh))))
   = [PatchRun [''kubectl'', ''-n'', ''argocd'', ''patch'', ''applications.argoproj.io'', ''web'',
                ''--type'', ''merge'', ''-p'',
                ''{'' @ dq @ ''spec'' @ dq @ '': {'' @ dq @ ''source'' @ dq @ '': {''
                  @ dq @ ''targetRevision'' @ dq @ '': '' @ dq @ ''v2'' @ dq @ ''}}}''],
      PatchRun [''kubectl'', ''-n'', ''argocd'', ''applications'', ''applications.argoproj.io'',
                ''web'', ''--type'', ''merge'', ''-p'',
                ''{'' @ dq @ ''spec'' @ dq @ '': {'' @ dq @ ''source'' @ dq @ '': {''
                  @ dq @ ''targetRevision'' @ dq @ '': '' @ dq @ ''v2'' @ dq @ ''}}}'']]"
  by (simp add: run_eval str_eval json_eval mutator_eval two_attempts)

section \<open>Dry run of the revision mutator\<close>

lemma get_application_status_loop_extends:
  "extends (guard_event c [''app'', ''get'', app_name, ''--output'', ''json''] 30) s
     (snd (get_application_status_loop m ev c app_name qu atts s))"
proof (induction atts arbitrary: s)
  case Nil
  show ?case by simp
next
  case (Cons a atts)
  let ?P = "guard_event c [''app'', ''get'', app_name, ''--output'', ''json''] 30"
  obtain res s1 where r: "execute_argocd_command m ev c
             [''app'', ''get'', app_name, ''--output'', ''json''] 30 qu s = (res, s1)" by fastforce
  then have e1: "extends ?P s s1" by (rule exec_pair)
  obtain lr s2 where l: "handle_oidc_login m ev c qu s1 = (lr, s2)" by fastforce
  then have "extends ?P s1 s2" by (rule login_pair)
  with e1 have e2: "extends ?P s s2" by (rule extends_trans)
  have e3: "extends ?P s (snd (get_application_status_loop m ev c app_name qu atts s2))"
    using e2 Cons.IH by (rule extends_trans)
  show ?case
    using r l e1 e2 e3
    by (auto simp: extends_emit_after split: sum.splits error.splits)
qed

lemma guard_get_no_mutation:
  "guard_event c (''app'' # ''get'' # rest) t e \<Longrightarrow> \<not> is_mutation e"
  by (cases e) (auto simp: guard_event_def exec_event_def login_event_def prefix_def)

lemma validate_cluster_mutation:
  "filter is_mutation (trace (snd (validate_cluster m ev c s))) = filter is_mutation (trace s)"
  by (subst validate_cluster_eq) simp

lemma fetch_sources_no_mutation:
  "filter is_mutation (trace (snd (fetch_sources m ev c app_name s)))
     = filter is_mutation (trace s)"
proof -
  obtain r s1 where v: "validate_cluster m ev c s = (r, s1)" by fastforce
  then have a: "filter is_mutation (trace s1) = filter is_mutation (trace s)"
    using validate_cluster_mutation [of m ev c s] by simp
  have b: "\<And>cname. filter is_mutation (trace (snd (get_application_status m ev cname app_name s1)))
             = filter is_mutation (trace s1)"
    unfolding get_application_status_def get_application_status'_def
    using get_application_status_loop_extends guard_get_no_mutation by (rule extends_filter)
  show ?thesis
    unfolding fetch_sources_def v
    using a b
    by (auto split: sum.splits prod.splits simp: prod_eq_iff)
qed


lemma print_sources_no_mutation:
  "filter is_mutation (trace (snd (print_sources ev srcs i s))) = filter is_mutation (trace s)"
  by (induction srcs arbitrary: i s) (auto split: sum.splits)

lemma py_input_no_mutation:
  "py_input ev p s = (r, s1) \<Longrightarrow> filter is_mutation (trace s1) = filter is_mutation (trace s)"
  by (auto simp: py_input_def)

lemma choose_source_no_mutation:
  assumes "choose_source ev c n s = Some y"
  shows "filter is_mutation (trace (snd y)) = filter is_mutation (trace s)"
proof (rule choose_source.raw_induct
         [where P = "\<lambda>ev c n s y. filter is_mutation (trace (snd y)) = filter is_mutation (trace s)",
          OF _ assms])
  fix rec ev c n s y
  assume ih: "\<And>c n s b y. rec c n s b = Some y \<Longrightarrow>
                 filter is_mutation (trace (snd y)) = filter is_mutation (trace b)"
    and body: "(case py_input ev (chooser_prompt c) s of
        (None, s1) \<Rightarrow>
          Some (Inr None, emit (Print (CHR 0x0A # ''No input available; skipping'')) s1)
      | (Some line, s1) \<Rightarrow>
          (let choice = py_strip line
           in if choice = [] \<or> py_lower choice \<in> set [''s'', ''skip'', ''n'', ''no'']
              then Some (Inr None, emit (Print ''Skipping'') s1)
              else if py_isdigit choice
              then (case py_int choice of
                      None \<Rightarrow> Some (Inl ValueError, s1)
                    | Some ci \<Rightarrow>
                        if ci < n then Some (Inr (Some ci), s1)
                        else rec ev c n (emit (Print invalid_selection) s1))
              else rec ev c n (emit (Print invalid_selection) s1))) = Some y"
  obtain line s1 where i: "py_input ev (chooser_prompt c) s = (line, s1)" by fastforce
  note m = py_input_no_mutation [OF i]
  have again: "rec ev c n (emit (Print invalid_selection) s1) = Some y \<Longrightarrow>
         filter is_mutation (trace (snd y)) = filter is_mutation (trace s)"
    using ih [of ev c n "emit (Print invalid_selection) s1" y] m by simp
  from body show "filter is_mutation (trace (snd y)) = filter is_mutation (trace s)"
    unfolding i using m again
    by (auto simp: Let_def split: option.splits if_splits)
qed

lemma resolve_index_no_mutation:
  "resolve_index ev c app_name repo source_index srcs s = Some (r, s') \<Longrightarrow>
     filter is_mutation (trace s') = filter is_mutation (trace s)"
  unfolding resolve_index_def
  by (auto split: sum.splits if_splits prod.splits option.splits
        dest!: choose_source_no_mutation
        simp: print_sources_no_mutation [of ev srcs 0, simplified]
        dest: arg_cong [where f = "\<lambda>p. filter is_mutation (trace (snd p))"])


text \<open>
  C8. For every \<open>set_application_target_revision\<close> with \<open>dry_run = True\<close> in which the
  application is fetched and its sources are listed, and a source index is resolved
  where one is needed (the operator did not skip), the operation returns \<open>True\<close>, the last
  thing it does is print the command it would run, and the whole call has started no
  subprocess for \<open>argocd app set\<close> and no \<open>kubectl\<close> subprocess.
\<close>

theorem dry_run_no_mutation:
  assumes "fetch_sources m ev cluster_name app_name s
             = (Inr (Some (cname, app_status, sources)), s1)"
    and "resolve_index ev cname app_name repo source_index sources s1
             = Some (Inr (Index resolved_index), s2)"
  shows "set_application_target_revision m ev cluster_name app_name revision repo source_index
           True s
           = Some (Inr True,
                   emit (Print (''DRY RUN: argocd ''
                           @ py_join '' '' (set_cmd app_name revision repo resolved_index)
                           @ '' --server <server-from-config>'')) s2)
       \<and> filter is_mutation
            (trace (emit (Print (''DRY RUN: argocd ''
                           @ py_join '' '' (set_cmd app_name revision repo resolved_index)
                           @ '' --server <server-from-config>'')) s2))
           = filter is_mutation (trace s)"
proof -
  have a: "filter is_mutation (trace s1) = filter is_mutation (trace s)"
    using fetch_sources_no_mutation [of m ev cluster_name app_name s] assms(1) by simp
  have b: "filter is_mutation (trace s2) = filter is_mutation (trace s1)"
    using assms(2) by (rule resolve_index_no_mutation)
  have c: "set_application_target_revision m ev cluster_name app_name revision repo source_index
           True s
           = Some (Inr True,
                   emit (Print (''DRY RUN: argocd ''
                           @ py_join '' '' (set_cmd app_name revision repo resolved_index)
                           @ '' --server <server-from-config>'')) s2)"
    by (simp add: set_application_target_revision_def assms apply_revision_def Let_def)
  from a b c show ?thesis by simp
qed

theorem dry_run_no_mutation_witness:
  "fst (fetch_sources (mgr [(''c1'', ''argocd login svc.example.com --grpc-web'')])
          ((scripted [Exited 0 ''{}'' []] [])
             \<lparr>json_loads := (\<lambda>t. Some (JObj [(''spec'',
                  JObj [(''source'', JObj [(''repoURL'', JStr ''https://git.example.com/web'')])])]))\<rparr>)
          ''c1'' ''web'' fresh)
     = Inr (Some (''c1'',
                  JObj [(''spec'',
                    JObj [(''source'', JObj [(''repoURL'', JStr ''https://git.example.com/web'')])])],
                  [JObj [(''repoURL'', JStr ''https://git.example.com/web'')]]))
   \<and> map_option fst
        (set_application_target_revision (mgr [(''c1'', ''argocd login svc.example.com --grpc-web'')])
          ((scripted [Exited 0 ''{}'' []] [])
             \<lparr>json_loads := (\<lambda>t. Some (JObj [(''spec'',
                  JObj [(''source'', JObj [(''repoURL'', JStr ''https://git.example.com/web'')])])]))\<rparr>)
          ''c1'' ''web'' ''v2'' None None True fresh)
     = Some (Inr True)
   \<and> map_option (\<lambda>r. last (trace (snd r)))
        (set_application_target_revision (mgr [(''c1'', ''argocd login svc.example.com --grpc-web'')])
          ((scripted [Exited 0 ''{}'' []] [])
             \<lparr>json_loads := (\<lambda>t. Some (JObj [(''spec'',
                  JObj [(''source'', JObj [(''repoURL'', JStr ''https://git.example.com/web'')])])]))\<rparr>)
          ''c1'' ''web'' ''v2'' None None True fresh)
     = Some (Print ''DRY RUN: argocd app set web --revision v2 --server <server-from-config>'')"
proof -
  let ?m = "mgr [(''c1'', ''argocd login svc.example.com --grpc-web'')]"
  let ?doc = "JObj [(''spec'',
                  JObj [(''source'', JObj [(''repoURL'', JStr ''https://git.example.com/web'')])])]"
  let ?ev = "(scripted [Exited 0 ''{}'' []] [])\<lparr>json_loads := (\<lambda>t. Some ?doc)\<rparr>"
  obtain s1 where f: "fetch_sources ?m ?ev ''c1'' ''web'' fresh
             = (Inr (Some (''c1'', ?doc, [JObj [(''repoURL'', JStr ''https://git.example.com/web'')]])), s1)"
    by (simp add: run_eval str_eval json_eval mutator_eval two_attempts)
  have r: "resolve_index ?ev ''c1'' ''web'' None None
             [JObj [(''repoURL'', JStr ''https://git.example.com/web'')]] s1
             = Some (Inr (Index None), s1)"
    by (simp add: resolve_index_def str_truthy_def)
  have j: "py_join '' '' (set_cmd ''web'' ''v2'' None None) = ''app set web --revision v2''"
    by (simp add: set_cmd_def str_truthy_def)
  from conjunct1 [OF dry_run_no_mutation [OF f r, of "''v2''"]] f j
  show ?thesis by simp
qed

end
